theory Spec2Isabelle
  imports Main "HOL-Library.List_Lexorder" "HOL-Library.Char_ord" "HOL-Library.Sublist"
begin

section \<open>Time, generated identifiers and payload values\<close>

text \<open>
  A \<open>time.Time\<close> is modelled by its \<open>UnixNano\<close> value. Go's zero \<open>Time\<close> is
  0001-01-01T00:00:00Z. Go's \<open>int\<close> is 64 bits wide on the platform the images are built
  for (\<open>GOARCH=amd64\<close>); it is modelled by \<open>int\<close>, and the one place where the code
  does arithmetic on it (\<open>job.RetryCount++\<close>) writes the wrap-around out.
\<close>

type_synonym time = int

definition zero_time :: time where
  "zero_time = - 62135596800000000000"

definition IsZero :: "time \<Rightarrow> bool" where
  "IsZero t = (t = zero_time)"

definition five_minutes :: int where
  "five_minutes = 300000000000"

definition go_incr :: "int \<Rightarrow> int" where
  "go_incr n = (if n = 9223372036854775807 then - 9223372036854775808 else n + 1)"

text \<open>\<open>fmt.Sprintf("%d", n)\<close>: the decimal rendering of an integer.\<close>

fun digits10 :: "nat \<Rightarrow> string" where
  "digits10 n =
     (if n < 10 then [''0123456789'' ! n]
      else digits10 (n div 10) @ [''0123456789'' ! (n mod 10)])"

declare digits10.simps [simp del]

definition fmt_d :: "int \<Rightarrow> string" where
  "fmt_d i = (if i < 0 then CHR ''-'' # digits10 (nat (- i)) else digits10 (nat i))"

definition generateJobID :: "time \<Rightarrow> string" where
  "generateJobID t = ''job_'' @ fmt_d t"

definition generateBackupID :: "time \<Rightarrow> string" where
  "generateBackupID t = ''backup_'' @ fmt_d t"

text \<open>
  A payload is a \<open>map[string]interface{}\<close>. The code only ever asserts its values to
  \<open>string\<close>; \<open>as_string\<close> is the two-valued type assertion \<open>v, ok := m[k].(string)\<close>,
  which yields the empty string and \<open>false\<close> for a missing key and for a value of
  another dynamic type.
\<close>

datatype pval = PStr string | PNum int

type_synonym payload = "string \<rightharpoonup> pval"

definition as_string :: "pval option \<Rightarrow> string \<times> bool" where
  "as_string v = (case v of Some (PStr s) \<Rightarrow> (s, True) | _ \<Rightarrow> ([], False))"

section \<open>Jobs, backups and instances\<close>

abbreviation (input) JobTypeBackup :: string where "JobTypeBackup \<equiv> ''backup''"
abbreviation (input) JobTypeRestore :: string where "JobTypeRestore \<equiv> ''restore''"
abbreviation (input) JobTypeCleanup :: string where "JobTypeCleanup \<equiv> ''cleanup''"

abbreviation (input) JobStatusPending :: string where "JobStatusPending \<equiv> ''pending''"
abbreviation (input) JobStatusRunning :: string where "JobStatusRunning \<equiv> ''running''"
abbreviation (input) JobStatusCompleted :: string where "JobStatusCompleted \<equiv> ''completed''"
abbreviation (input) JobStatusFailed :: string where "JobStatusFailed \<equiv> ''failed''"
abbreviation (input) JobStatusRetrying :: string where "JobStatusRetrying \<equiv> ''retrying''"

abbreviation (input) BackupStatusPending :: string where "BackupStatusPending \<equiv> ''pending''"
abbreviation (input) BackupStatusInProgress :: string where "BackupStatusInProgress \<equiv> ''in_progress''"
abbreviation (input) BackupStatusCompleted :: string where "BackupStatusCompleted \<equiv> ''completed''"
abbreviation (input) BackupStatusFailed :: string where "BackupStatusFailed \<equiv> ''failed''"

record Job =
  jID :: string
  jType :: string
  jStatus :: string
  jPriority :: int
  jPayload :: payload
  jRetryCount :: int
  jMaxRetries :: int
  jCreatedAt :: time
  jStartedAt :: "time option"
  jCompletedAt :: "time option"
  jError :: string
  jWorkerID :: string

record BackupInfo =
  bID :: string
  bPostgreSQLID :: string
  bDatabaseName :: string
  bBackupType :: string
  bStatus :: string
  bStartTime :: time
  bEndTime :: "time option"
  bFilePath :: string
  bFileSize :: int
  bJobID :: string
  bS3Key :: string
  bErrorMessage :: string
  bCreatedAt :: time

record PostgreSQLConfig =
  pID :: string
  pName :: string
  pHost :: string
  pPort :: int
  pDatabases :: "string list"
  pUsername :: string
  pPassword :: string
  pEnabled :: bool
  pSSLMode :: string

section \<open>The control database\<close>

text \<open>
  A row of the \<open>jobs\<close> table. The columns \<open>postgres_id\<close>, \<open>database_name\<close> and
  \<open>backup_id\<close> are nullable in \<open>migrate_add_jobs_table.sql\<close>, and \<open>backup_id\<close> in
  \<open>schema_postgres.sql\<close> too.
\<close>

record job_row =
  r_id :: string
  r_type :: string
  r_postgres_id :: "string option"
  r_database_name :: "string option"
  r_backup_id :: "string option"
  r_priority :: int
  r_payload :: "string option"
  r_status :: string
  r_retry_count :: int
  r_max_retries :: int
  r_error_message :: "string option"
  r_created_at :: time
  r_started_at :: "time option"
  r_completed_at :: "time option"

text \<open>
  The repository creates the \<open>jobs\<close> table in two places, both with
  \<open>CREATE TABLE IF NOT EXISTS\<close>, and the two disagree on the check constraint of
  \<open>status\<close>: \<open>schema_postgres.sql\<close> (the script the compose file mounts as the
  database's init script) and \<open>migrate_add_jobs_table.sql\<close>. The constraint a
  database carries is therefore a field of its state.
\<close>

definition schema_postgres_jobs_status :: "string list" where
  "schema_postgres_jobs_status =
     [''pending'', ''running'', ''completed'', ''failed'', ''cancelled'']"

definition migrate_add_jobs_table_status :: "string list" where
  "migrate_add_jobs_table_status =
     [''pending'', ''running'', ''completed'', ''failed'', ''retrying'']"

definition jobs_type_check :: "string list" where
  "jobs_type_check = [''backup'', ''restore'', ''cleanup'']"

definition backups_type_check :: "string list" where
  "backups_type_check = [''hourly'', ''daily'', ''weekly'', ''monthly'', ''manual'']"

definition backups_status_check :: "string list" where
  "backups_status_check = [''pending'', ''in_progress'', ''completed'', ''failed'']"

text \<open>The statuses the worker package can write: the five \<open>JobStatus\<close> constants.\<close>

definition job_statuses :: "string list" where
  "job_statuses =
     [JobStatusPending, JobStatusRunning, JobStatusCompleted, JobStatusFailed,
      JobStatusRetrying]"

text \<open>
  A row of the \<open>postgresql_instances\<close> table. The columns \<open>databases\<close>,
  \<open>created_at\<close> and \<open>updated_at\<close> have a default but no \<open>NOT NULL\<close>, so they
  can hold NULL. A \<open>databases\<close> that is not NULL is a JSONB value: an array of strings,
  or some other JSON value.
\<close>

datatype databases_col = DbNull | DbArray "string list" | DbOther

record instance_row =
  i_id :: string
  i_name :: string
  i_host :: string
  i_port :: int
  i_username :: string
  i_password :: string
  i_databases :: databases_col
  i_enabled :: bool
  i_ssl_mode :: string
  i_created_at :: "time option"
  i_updated_at :: "time option"

datatype db_error =
  Unavailable | UniqueViolation | CheckViolation | ForeignKeyViolation | OutOfRange
  | NoRows | NullScan | NullTimeScan

record db =
  jobs :: "job_row list"
  backups :: "BackupInfo list"
  instances :: "instance_row list"
  jobs_status_check :: "string list"
  available :: bool

text \<open>An \<open>INTEGER\<close> column holds 32 bits.\<close>

definition int4 :: "int \<Rightarrow> bool" where
  "int4 n = (- 2147483648 \<le> n \<and> n \<le> 2147483647)"

definition job_row_ok :: "db \<Rightarrow> job_row \<Rightarrow> bool" where
  "job_row_ok d r =
     (List.member jobs_type_check (r_type r) \<and> List.member (jobs_status_check d) (r_status r))"

definition job_row_in_range :: "job_row \<Rightarrow> bool" where
  "job_row_in_range r = (int4 (r_priority r) \<and> int4 (r_retry_count r) \<and> int4 (r_max_retries r))"

text \<open>
  \<open>INSERT INTO jobs\<close>: refused when the database cannot be reached, when a value does
  not fit its column, when a check constraint is violated or when the primary key exists.
\<close>

definition insert_job :: "db \<Rightarrow> job_row \<Rightarrow> db_error + db" where
  "insert_job d r =
     (if \<not> available d then Inl Unavailable
      else if \<not> job_row_in_range r then Inl OutOfRange
      else if \<not> job_row_ok d r then Inl CheckViolation
      else if List.member (map r_id (jobs d)) (r_id r) then Inl UniqueViolation
      else Inr (d\<lparr>jobs := jobs d @ [r]\<rparr>))"

text \<open>
  \<open>UPDATE jobs SET ... WHERE ...\<close>: the statement fails as a whole (changing nothing)
  when a row it would write violates a constraint; otherwise it reports the number of rows
  it matched.
\<close>

definition update_jobs :: "db \<Rightarrow> (job_row \<Rightarrow> bool) \<Rightarrow> (job_row \<Rightarrow> job_row) \<Rightarrow> db_error + (nat \<times> db)" where
  "update_jobs d hit upd =
     (let written = map upd (filter hit (jobs d)) in
      if \<not> available d then Inl Unavailable
      else if \<not> list_all job_row_in_range written then Inl OutOfRange
      else if \<not> list_all (job_row_ok d) written then Inl CheckViolation
      else Inr (length written, d\<lparr>jobs := map (\<lambda>r. if hit r then upd r else r) (jobs d)\<rparr>))"


text \<open>
  \<open>updateJobStatus\<close>:
  \<^verbatim>\<open>UPDATE jobs SET status = $1, retry_count = $2, started_at = $3, completed_at = $4,
  error_message = $5 WHERE id = $6\<close>.
\<close>

definition updateJobStatus :: "db \<Rightarrow> Job \<Rightarrow> db_error + db" where
  "updateJobStatus d job =
     (case update_jobs d (\<lambda>r. r_id r = jID job)
             (\<lambda>r. r\<lparr>r_status := jStatus job, r_retry_count := jRetryCount job,
                     r_started_at := jStartedAt job, r_completed_at := jCompletedAt job,
                     r_error_message := Some (jError job)\<rparr>) of
        Inl e \<Rightarrow> Inl e
      | Inr (k, d') \<Rightarrow> Inr d')"

text \<open>
  The loader's claim,
  \<^verbatim>\<open>UPDATE jobs SET status = 'running', started_at = $1 WHERE id = $2 AND status = 'pending'\<close>,
  and its rollback,
  \<^verbatim>\<open>UPDATE jobs SET status = 'pending', started_at = NULL WHERE id = $1\<close>.
\<close>

definition claim_job :: "db \<Rightarrow> time \<Rightarrow> string \<Rightarrow> db_error + (nat \<times> db)" where
  "claim_job d t i =
     update_jobs d (\<lambda>r. r_id r = i \<and> r_status r = ''pending'')
       (\<lambda>r. r\<lparr>r_status := ''running'', r_started_at := Some t\<rparr>)"

definition rollback_job :: "db \<Rightarrow> string \<Rightarrow> db_error + (nat \<times> db)" where
  "rollback_job d i =
     update_jobs d (\<lambda>r. r_id r = i) (\<lambda>r. r\<lparr>r_status := ''pending'', r_started_at := None\<rparr>)"

text \<open>
  The loader's query: the rows with
  \<^verbatim>\<open>status = 'pending' OR status = 'retrying' OR (status = 'running' AND started_at < NOW() - INTERVAL '5 minutes')\<close>,
  \<^verbatim>\<open>ORDER BY priority DESC, created_at ASC LIMIT 10\<close>. A comparison with a
  \<open>NULL\<close> \<open>started_at\<close> is not true. SQL leaves the order of rows that agree on both sort
  keys open; the model keeps them in table order.
\<close>

definition eligible :: "time \<Rightarrow> job_row \<Rightarrow> bool" where
  "eligible now r =
     (r_status r = ''pending'' \<or> r_status r = ''retrying'' \<or>
      (r_status r = ''running'' \<and>
       (case r_started_at r of None \<Rightarrow> False | Some t \<Rightarrow> t < now - five_minutes)))"

definition job_before :: "job_row \<Rightarrow> job_row \<Rightarrow> bool" where
  "job_before a b =
     (r_priority b < r_priority a \<or>
      (r_priority a = r_priority b \<and> r_created_at a \<le> r_created_at b))"

fun insert_by :: "job_row \<Rightarrow> job_row list \<Rightarrow> job_row list" where
  "insert_by a [] = [a]"
| "insert_by a (b # bs) = (if job_before a b then a # b # bs else b # insert_by a bs)"

definition order_jobs :: "job_row list \<Rightarrow> job_row list" where
  "order_jobs rs = foldr insert_by rs []"

definition select_eligible :: "time \<Rightarrow> db \<Rightarrow> job_row list" where
  "select_eligible now d = take 10 (order_jobs (filter (eligible now) (jobs d)))"

subsection \<open>Backups\<close>

text \<open>
  \<open>BackupRepository.Create\<close> inserts every field of the struct. The table's constraints:
  primary key \<open>id\<close>, the two check constraints, and the foreign key from
  \<open>postgresql_id\<close> to the instances.
\<close>

definition backups_Create :: "db \<Rightarrow> BackupInfo \<Rightarrow> db_error + db" where
  "backups_Create d b =
     (if \<not> available d then Inl Unavailable
      else if \<not> (List.member backups_type_check (bBackupType b) \<and>
                  List.member backups_status_check (bStatus b)) then Inl CheckViolation
      else if List.member (map bID (backups d)) (bID b) then Inl UniqueViolation
      else if \<not> List.member (map i_id (instances d)) (bPostgreSQLID b) then Inl ForeignKeyViolation
      else Inr (d\<lparr>backups := backups d @ [b]\<rparr>))"

text \<open>
  \<open>BackupRepository.Update\<close> writes status, end_time, file_path, file_size, s3_key and
  error_message of the row with the backup's id, and nothing else (neither start_time nor
  job_id).
\<close>

definition backups_Update :: "db \<Rightarrow> BackupInfo \<Rightarrow> db_error + db" where
  "backups_Update d b =
     (if \<not> available d then Inl Unavailable
      else if List.member (map bID (backups d)) (bID b) \<and>
              \<not> List.member backups_status_check (bStatus b) then Inl CheckViolation
      else Inr (d\<lparr>backups :=
             map (\<lambda>r. if bID r = bID b
                       then r\<lparr>bStatus := bStatus b, bEndTime := bEndTime b,
                              bFilePath := bFilePath b, bFileSize := bFileSize b,
                              bS3Key := bS3Key b, bErrorMessage := bErrorMessage b\<rparr>
                       else r) (backups d)\<rparr>))"

text \<open>
  \<open>BackupRepository.GetByID\<close> does not select \<open>job_id\<close>, so the struct it returns
  has an empty \<open>JobID\<close>.
\<close>

definition backups_GetByID :: "db \<Rightarrow> string \<Rightarrow> db_error + BackupInfo" where
  "backups_GetByID d i =
     (if \<not> available d then Inl Unavailable
      else case find (\<lambda>r. bID r = i) (backups d) of
             None \<Rightarrow> Inl NoRows
           | Some r \<Rightarrow> Inr (r\<lparr>bJobID := []\<rparr>))"

subsection \<open>Instances\<close>

text \<open>
  \<open>scanPostgreSQL\<close> scans \<open>databases\<close> into a Go string and the two timestamps
  into \<open>time.Time\<close>: a NULL in one of them makes \<open>Scan\<close> fail (at the first such
  column), and the caller gets the error. Otherwise the text is unmarshalled into a slice of strings; when that fails
  (the value is not an array of strings) the slice stays empty, and an instance with no
  database gets \<open>["postgres"]\<close>.
\<close>

definition unmarshal_databases :: "databases_col \<Rightarrow> string list option" where
  "unmarshal_databases c = (case c of DbArray ds \<Rightarrow> Some ds | DbNull \<Rightarrow> None | DbOther \<Rightarrow> None)"

definition scanPostgreSQL :: "instance_row \<Rightarrow> db_error + PostgreSQLConfig" where
  "scanPostgreSQL r =
     (if i_databases r = DbNull then Inl NullScan
      else if i_created_at r = None \<or> i_updated_at r = None then Inl NullTimeScan
      else (let databases = (case unmarshal_databases (i_databases r) of
                               Some ds \<Rightarrow> ds
                             | None \<Rightarrow> [])
            in Inr \<lparr>pID = i_id r, pName = i_name r, pHost = i_host r, pPort = i_port r,
                    pDatabases = (if length databases = 0 then [''postgres''] else databases),
                    pUsername = i_username r, pPassword = i_password r,
                    pEnabled = i_enabled r, pSSLMode = i_ssl_mode r\<rparr>))"

text \<open>\<open>GetByID\<close>: no row is \<open>sql.ErrNoRows\<close>, and the row found is scanned.\<close>

definition instances_GetByID :: "db \<Rightarrow> string \<Rightarrow> db_error + PostgreSQLConfig" where
  "instances_GetByID d i =
     (if \<not> available d then Inl Unavailable
      else case find (\<lambda>r. i_id r = i) (instances d) of
             None \<Rightarrow> Inl NoRows
           | Some r \<Rightarrow> scanPostgreSQL r)"

text \<open>
  \<open>GetEnabled\<close>: \<^verbatim>\<open>SELECT ... FROM postgresql_instances WHERE enabled = true ORDER BY name\<close>
  (the names are ordered bytewise here; the database orders them by its collation), and
  the loop over the rows, which returns the error of the first row that does not scan and
  no instance at all.
\<close>

definition select_enabled :: "db \<Rightarrow> instance_row list" where
  "select_enabled d = sort_key i_name (filter i_enabled (instances d))"

fun scan_rows :: "instance_row list \<Rightarrow> db_error + PostgreSQLConfig list" where
  "scan_rows [] = Inr []"
| "scan_rows (r # rs) =
     (case scanPostgreSQL r of
        Inl e \<Rightarrow> Inl e
      | Inr inst \<Rightarrow>
          (case scan_rows rs of
             Inl e \<Rightarrow> Inl e
           | Inr insts \<Rightarrow> Inr (inst # insts)))"

definition GetEnabled :: "db \<Rightarrow> db_error + PostgreSQLConfig list" where
  "GetEnabled d = (if \<not> available d then Inl Unavailable else scan_rows (select_enabled d))"

definition db_error_text :: "db_error \<Rightarrow> string" where
  "db_error_text e =
     (case e of
        Unavailable \<Rightarrow> ''connection refused''
      | UniqueViolation \<Rightarrow> ''duplicate key value violates unique constraint''
      | CheckViolation \<Rightarrow> ''new row violates check constraint''
      | ForeignKeyViolation \<Rightarrow> ''violates foreign key constraint''
      | OutOfRange \<Rightarrow> ''value out of range for type integer''
      | NoRows \<Rightarrow> ''sql: no rows in result set''
      | NullScan \<Rightarrow> ''converting NULL to string is unsupported''
      | NullTimeScan \<Rightarrow> ''unsupported Scan, storing driver.Value type <nil> into type *time.Time'')"

section \<open>The world a worker process runs in\<close>

text \<open>
  The host: the environment variable \<open>BACKUP_TEMP_DIR\<close>, the local files (path and
  size), the child processes spawned so far (argument vector and the \<open>PGPASSWORD\<close> they
  were given), and what the environment answers: whether \<open>MkdirAll\<close> and \<open>os.Create\<close>
  fail, how \<open>pg_dump\<close> exits, what it prints and the size of the file it leaves behind
  (if any), and how \<open>psql\<close> exits. \<open>filepath.Join\<close> and
  \<open>Time.Format("2006-01-02-15-04-05")\<close> are library functions and are taken as given.
\<close>

record host =
  temp_dir_env :: string
  mkdir_fails :: bool
  pg_dump_err :: "string option"
  pg_dump_out :: string
  pg_dump_writes :: "int option"
  psql_err :: "string option"
  create_fails :: bool
  local_files :: "(string \<times> int) list"
  execs :: "(string list \<times> string) list"
  filepath_Join :: "string \<Rightarrow> string \<Rightarrow> string"
  fmt_time :: "time \<Rightarrow> string"

text \<open>
  The object store: the keys it holds (the contents and sizes of the objects are not
  modelled), whether listing, uploading and downloading fail, for which keys a delete
  request fails, and what the S3 client has logged. \<open>list_spare\<close> is the capacity
  that the slice of a listing has beyond its length (the SDK builds the slice by
  appending, so the capacity is the SDK's affair).
\<close>

datatype s3_log =
  Uploaded string string | Downloaded string string | Deleted string | DeleteFailed string
  | CleanedUp nat string

record s3 =
  objects :: "string list"
  list_fails :: bool
  upload_fails :: bool
  download_fails :: bool
  delete_fails :: "string \<Rightarrow> bool"
  list_spare :: nat
  s3_logged :: "s3_log list"

text \<open>
  The state of one worker process and of what it shares with the others: the control
  database, the buffered channel \<open>q.jobs\<close> (capacity 1000) with its closed flag, whether
  \<open>q.ctx\<close> is cancelled, and the clock: \<open>clk w n\<close> is what the \<open>n\<close>-th call of
  \<open>time.Now()\<close> returns, \<open>reads\<close> counts the calls made; and the host and the
  object store. Writing log lines to the logs table is not modelled.
\<close>

record world =
  wdb :: db
  chan :: "Job list"
  chan_closed :: bool
  ctx_done :: bool
  clk :: "nat \<Rightarrow> time"
  reads :: nat
  whost :: host
  ws3 :: s3

definition chan_cap :: nat where
  "chan_cap = 1000"

definition time_Now :: "world \<Rightarrow> time \<times> world" where
  "time_Now w = (clk w (reads w), w\<lparr>reads := Suc (reads w)\<rparr>)"


section \<open>The job queue\<close>

text \<open>
  \<open>persistJob\<close> copies three payload fields into columns (an absent or non-string value
  becomes the empty string) and stores \<open>NULL\<close> as the payload: the \<open>backup_type\<close> of the
  payload is not written anywhere.
\<close>

definition job_row_of :: "Job \<Rightarrow> job_row" where
  "job_row_of job =
     \<lparr>r_id = jID job, r_type = jType job,
      r_postgres_id = Some (fst (as_string (jPayload job ''postgres_id''))),
      r_database_name = Some (fst (as_string (jPayload job ''database_name''))),
      r_backup_id = Some (fst (as_string (jPayload job ''backup_id''))),
      r_priority = jPriority job, r_payload = None, r_status = jStatus job,
      r_retry_count = jRetryCount job, r_max_retries = jMaxRetries job,
      r_error_message = None, r_created_at = jCreatedAt job,
      r_started_at = None, r_completed_at = None\<rparr>"

definition persistJob :: "db \<Rightarrow> Job \<Rightarrow> db_error + db" where
  "persistJob d job = insert_job d (job_row_of job)"

text \<open>
  What \<open>AddJob\<close> returns: \<open>nil\<close> is \<open>None\<close>; the errors are
  "failed to persist job: ...", "queue is shutting down" and "queue is full". A send on a
  closed channel panics.
\<close>

datatype queue_error = PersistFailed db_error | ShuttingDown | QueueFull | SendOnClosedChannel

text \<open>
  The first lines of \<open>AddJob\<close>: the id, \<open>created_at\<close> and \<open>max_retries\<close> defaults, and
  the status.
\<close>

definition prepare_job :: "world \<Rightarrow> Job \<Rightarrow> Job \<times> world" where
  "prepare_job w job =
     (case (if jID job = [] then (case time_Now w of (t, w') \<Rightarrow> (job\<lparr>jID := generateJobID t\<rparr>, w'))
            else (job, w)) of
        (job1, w1) \<Rightarrow>
          (case (if IsZero (jCreatedAt job1)
                 then (case time_Now w1 of (t, w') \<Rightarrow> (job1\<lparr>jCreatedAt := t\<rparr>, w'))
                 else (job1, w1)) of
             (job2, w2) \<Rightarrow>
               ((if jMaxRetries job2 = 0 then job2\<lparr>jMaxRetries := 3\<rparr> else job2)
                  \<lparr>jStatus := JobStatusPending\<rparr>, w2)))"

text \<open>
  \<open>AddJob\<close>. The \<open>select\<close> has a send case, a \<open>ctx.Done()\<close> case and a default. The
  send is ready when the buffer has room (or the channel is closed, and then it panics);
  when both cases are ready Go picks one at random, here \<open>pick\<close> (true: the send).
  The job is returned as \<open>AddJob\<close> leaves it behind the caller's pointer.
\<close>

definition AddJob :: "bool \<Rightarrow> world \<Rightarrow> Job \<Rightarrow> queue_error option \<times> Job \<times> world" where
  "AddJob pick w job =
     (case prepare_job w job of
        (job', w1) \<Rightarrow>
          (case persistJob (wdb w1) job' of
             Inl e \<Rightarrow> (Some (PersistFailed e), job', w1)
           | Inr d \<Rightarrow>
               (let w2 = w1\<lparr>wdb := d\<rparr>;
                    send_ready = (chan_closed w2 \<or> length (chan w2) < chan_cap);
                    sent = (if chan_closed w2 then (Some SendOnClosedChannel, job', w2)
                            else (None, job', w2\<lparr>chan := chan w2 @ [job']\<rparr>))
                in if send_ready \<and> ctx_done w2
                   then (if pick then sent else (Some ShuttingDown, job', w2))
                   else if send_ready then sent
                   else if ctx_done w2 then (Some ShuttingDown, job', w2)
                   else (Some QueueFull, job', w2))))"

subsection \<open>The database loader\<close>

text \<open>
  One row of the loader's result set becomes a \<open>Job\<close>: \<open>rows.Scan\<close> fails on a
  \<open>NULL\<close> in a column scanned into a Go \<open>string\<close>, and the row is then skipped. The
  driver hands \<open>created_at\<close> over in RFC 3339 form, which the second layout of the code
  parses. The payload is rebuilt from the columns, with the constant \<open>"manual"\<close> as
  \<open>backup_type\<close>; the status of the struct is set to pending whatever the row's was.
\<close>

definition job_of_row :: "job_row \<Rightarrow> Job option" where
  "job_of_row r =
     (case (r_postgres_id r, r_database_name r, r_backup_id r) of
        (Some postgresID, Some databaseName, Some backupID) \<Rightarrow>
          Some \<lparr>jID = r_id r, jType = r_type r, jStatus = JobStatusPending,
                jPriority = r_priority r,
                jPayload = [''postgres_id'' \<mapsto> PStr postgresID,
                            ''database_name'' \<mapsto> PStr databaseName,
                            ''backup_id'' \<mapsto> PStr backupID,
                            ''backup_type'' \<mapsto> PStr ''manual''],
                jRetryCount = r_retry_count r, jMaxRetries = r_max_retries r,
                jCreatedAt = r_created_at r, jStartedAt = None, jCompletedAt = None,
                jError = [], jWorkerID = []\<rparr>
      | _ \<Rightarrow> None)"

text \<open>
  The loop over the result set. For each row: the claim update (its error is logged and
  the row skipped), the test of the affected-row count, and the non-blocking send with
  the rollback in its default case. \<open>None\<close> is a panic (send on a closed channel). The
  number is \<open>jobsLoaded\<close>.
\<close>

fun load_rows :: "world \<Rightarrow> job_row list \<Rightarrow> nat \<Rightarrow> (nat \<times> world) option" where
  "load_rows w [] n = Some (n, w)"
| "load_rows w (r # rs) n =
     (case job_of_row r of
        None \<Rightarrow> load_rows w rs n
      | Some job \<Rightarrow>
          (case time_Now w of
             (t, w1) \<Rightarrow>
               (case claim_job (wdb w1) t (jID job) of
                  Inl e \<Rightarrow> load_rows w1 rs n
                | Inr (rowsAffected, d) \<Rightarrow>
                    if rowsAffected = 0 then load_rows (w1\<lparr>wdb := d\<rparr>) rs n
                    else if chan_closed w1 then None
                    else if length (chan w1) < chan_cap
                    then load_rows (w1\<lparr>wdb := d, chan := chan w1 @ [job]\<rparr>) rs (Suc n)
                    else load_rows
                           (w1\<lparr>wdb := (case rollback_job d (jID job) of
                                           Inl e \<Rightarrow> d | Inr (k, d') \<Rightarrow> d')\<rparr>) rs n)))"

text \<open>
  One tick of \<open>loadJobsFromDatabase\<close>; \<open>db_now\<close> is the database's \<open>NOW()\<close>. A failed
  query is logged and the tick ends.
\<close>

definition loadJobsFromDatabase :: "time \<Rightarrow> world \<Rightarrow> (nat \<times> world) option" where
  "loadJobsFromDatabase db_now w =
     (if \<not> available (wdb w) then Some (0, w)
      else load_rows w (select_eligible db_now (wdb w)) 0)"


section \<open>The worker\<close>

text \<open>
  A handler returns its error (\<open>None\<close> for \<open>nil\<close>), the job as it leaves it and the new
  world. After the prefix the code writes, the text of a driver or operating-system error
  is a placeholder.
\<close>

record Worker =
  wkID :: string
  currentJob :: "Job option"
  wkStatus :: string
  jobsHandled :: int
  lastJobAt :: "time option"
  stopped :: bool

definition NewWorker :: "string \<Rightarrow> Worker" where
  "NewWorker i =
     \<lparr>wkID = i, currentJob = None, wkStatus = ''idle'', jobsHandled = 0, lastJobAt = None,
      stopped = False\<rparr>"

definition IsActive :: "Worker \<Rightarrow> bool" where
  "IsActive wk = (currentJob wk \<noteq> None \<and> wkStatus wk = ''working'')"

text \<open>The receive of \<open>Worker.Start\<close>: the oldest job in the channel, if there is one.\<close>

definition receive :: "world \<Rightarrow> (Job \<times> world) option" where
  "receive w = (case chan w of [] \<Rightarrow> None | job # rest \<Rightarrow> Some (job, w\<lparr>chan := rest\<rparr>))"

subsection \<open>The backup handler\<close>

text \<open>
  The backup row of the job: the one the payload names, or a new pending one (the
  fallback for jobs without \<open>backup_id\<close>), whose id is then put into the payload.
\<close>

definition resolve_backup ::
  "world \<Rightarrow> Job \<Rightarrow> string \<Rightarrow> string \<Rightarrow> string \<Rightarrow> (string + BackupInfo) \<times> Job \<times> world" where
  "resolve_backup w job postgresID databaseName backupType =
     (case as_string (jPayload job ''backup_id'') of
        (backupIDStr, found) \<Rightarrow>
          if found \<and> backupIDStr \<noteq> [] then
            (case backups_GetByID (wdb w) backupIDStr of
               Inl e \<Rightarrow>
                 (Inl (''failed to get existing backup record: '' @ db_error_text e), job, w)
             | Inr existingBackup \<Rightarrow> (Inr (existingBackup\<lparr>bJobID := jID job\<rparr>), job, w))
          else
            (case time_Now w of (t1, w1) \<Rightarrow>
             case time_Now w1 of (t2, w2) \<Rightarrow>
             case time_Now w2 of (t3, w3) \<Rightarrow>
               (let backup =
                      \<lparr>bID = generateBackupID t1, bPostgreSQLID = postgresID,
                       bDatabaseName = databaseName, bBackupType = backupType,
                       bStatus = BackupStatusPending, bStartTime = t2, bEndTime = None,
                       bFilePath = [], bFileSize = 0, bJobID = jID job, bS3Key = [],
                       bErrorMessage = [], bCreatedAt = t3\<rparr>
                in case backups_Create (wdb w3) backup of
                     Inl e \<Rightarrow>
                       (Inl (''failed to create backup record: '' @ db_error_text e), job, w3)
                   | Inr d \<Rightarrow>
                       (Inr backup,
                        job\<lparr>jPayload := (jPayload job)(''backup_id'' \<mapsto> PStr (bID backup))\<rparr>,
                        w3\<lparr>wdb := d\<rparr>))))"

text \<open>
  Spawning \<open>pg_dump\<close>: the \<open>--version\<close> probe runs first, then the dump with the
  password in its environment. The dump leaves the file the environment decides.
\<close>

definition pg_dump_argv :: "PostgreSQLConfig \<Rightarrow> string \<Rightarrow> string \<Rightarrow> string list" where
  "pg_dump_argv pgInstance databaseName localPath =
     [''pg_dump'', ''-h'', pHost pgInstance, ''-p'', fmt_d (pPort pgInstance),
      ''-U'', pUsername pgInstance, ''-d'', databaseName, ''-f'', localPath,
      ''--verbose'', ''--no-password'']"

definition spawn_pg_dump :: "host \<Rightarrow> PostgreSQLConfig \<Rightarrow> string \<Rightarrow> string \<Rightarrow> host" where
  "spawn_pg_dump h pgInstance databaseName localPath =
     h\<lparr>execs := execs h @ [(pg_dump_argv pgInstance databaseName localPath, pPassword pgInstance)],
       local_files :=
         (case pg_dump_writes h of
            None \<Rightarrow> local_files h
          | Some sz \<Rightarrow> (localPath, sz) # filter (\<lambda>f. fst f \<noteq> localPath) (local_files h))\<rparr>"

definition run_pg_dump :: "host \<Rightarrow> PostgreSQLConfig \<Rightarrow> string \<Rightarrow> string \<Rightarrow> host" where
  "run_pg_dump h pgInstance databaseName localPath =
     spawn_pg_dump (h\<lparr>execs := execs h @ [([''pg_dump'', ''--version''], [])]\<rparr>)
       pgInstance databaseName localPath"

text \<open>
  From the file name to the end of \<open>processBackupJob\<close>: the dump, the failure branches
  that mark the backup failed, the stat of the dump file and the final update that marks
  the backup completed. The handler holds no object-store client: there is no upload, the
  \<open>S3Key\<close> of the struct is never assigned, and the local file is not removed.
\<close>

definition dump_backup ::
  "world \<Rightarrow> BackupInfo \<Rightarrow> PostgreSQLConfig \<Rightarrow> string \<Rightarrow> string \<Rightarrow> string option \<times> world" where
  "dump_backup w backup pgInstance databaseName backupType =
     (let h = whost w;
          timestamp = fmt_time h (bStartTime backup);
          filename = pName pgInstance @ ''_Postgres_1_'' @ databaseName @ ''_'' @ backupType
                       @ ''_'' @ timestamp @ ''.sql'';
          tempDir = (if temp_dir_env h = [] then ''/tmp/postgres-backups'' else temp_dir_env h);
          localPath = filepath_Join h tempDir filename
      in if mkdir_fails h then (Some ''failed to create temp directory: mkdir'', w)
         else
           (let h1 = run_pg_dump h pgInstance databaseName localPath;
                w1 = w\<lparr>whost := h1\<rparr>
            in case pg_dump_err h of
                 Some err \<Rightarrow>
                   (case time_Now w1 of
                      (endTime, w2) \<Rightarrow>
                        (case backups_Update (wdb w2)
                                (backup\<lparr>bStatus := BackupStatusFailed,
                                        bErrorMessage := ''pg_dump failed: '' @ err @ [CHR 0x0A]
                                                           @ ''Output: '' @ pg_dump_out h,
                                        bEndTime := Some endTime\<rparr>) of
                           Inl e \<Rightarrow>
                             (Some (''failed to update backup record: '' @ db_error_text e), w2)
                         | Inr d \<Rightarrow> (Some (''pg_dump failed: '' @ err), w2\<lparr>wdb := d\<rparr>)))
               | None \<Rightarrow>
                   (case map_of (local_files h1) localPath of
                      None \<Rightarrow>
                        (case time_Now w1 of
                           (endTime, w2) \<Rightarrow>
                             (case backups_Update (wdb w2)
                                     (backup\<lparr>bStatus := BackupStatusFailed,
                                             bErrorMessage := ''failed to get file info: stat'',
                                             bEndTime := Some endTime\<rparr>) of
                                Inl e \<Rightarrow>
                                  (Some (''failed to update backup record: '' @ db_error_text e), w2)
                              | Inr d \<Rightarrow> (Some ''failed to get file info: stat'', w2\<lparr>wdb := d\<rparr>)))
                    | Some sz \<Rightarrow>
                        (case time_Now w1 of
                           (endTime, w2) \<Rightarrow>
                             (case backups_Update (wdb w2)
                                     (backup\<lparr>bFileSize := sz, bFilePath := localPath,
                                             bStatus := BackupStatusCompleted,
                                             bEndTime := Some endTime\<rparr>) of
                                Inl e \<Rightarrow>
                                  (Some (''failed to update backup record: '' @ db_error_text e), w2)
                              | Inr d \<Rightarrow> (None, w2\<lparr>wdb := d\<rparr>))))))"

definition processBackupJob :: "world \<Rightarrow> Job \<Rightarrow> string option \<times> Job \<times> world" where
  "processBackupJob w job =
     (case as_string (jPayload job ''postgres_id'') of
        (postgresID, ok1) \<Rightarrow>
          if \<not> ok1 then (Some ''missing postgres_id in job payload'', job, w) else
          (case as_string (jPayload job ''database_name'') of
             (databaseName, ok2) \<Rightarrow>
               if \<not> ok2 then (Some ''missing database_name in job payload'', job, w) else
               (case as_string (jPayload job ''backup_type'') of
                  (backupType, ok3) \<Rightarrow>
                    if \<not> ok3 then (Some ''missing backup_type in job payload'', job, w) else
                    (case resolve_backup w job postgresID databaseName backupType of
                       (Inl e, job1, w1) \<Rightarrow> (Some e, job1, w1)
                     | (Inr backup, job1, w1) \<Rightarrow>
                         (case time_Now w1 of
                            (t, w2) \<Rightarrow>
                              (let backup1 = backup\<lparr>bStatus := BackupStatusInProgress,
                                                    bStartTime := t\<rparr>
                               in case backups_Update (wdb w2) backup1 of
                                    Inl e \<Rightarrow>
                                      (Some (''failed to update backup status: '' @ db_error_text e),
                                       job1, w2)
                                  | Inr d \<Rightarrow>
                                      (case instances_GetByID d postgresID of
                                         Inl e \<Rightarrow>
                                           (Some (''failed to get postgres instance: ''
                                                    @ db_error_text e), job1, w2\<lparr>wdb := d\<rparr>)
                                       | Inr pgInstance \<Rightarrow>
                                           (case dump_backup (w2\<lparr>wdb := d\<rparr>) backup1 pgInstance
                                                   databaseName backupType of
                                              (r, w3) \<Rightarrow> (r, job1, w3)))))))))"

subsection \<open>The restore and cleanup handlers\<close>

text \<open>
  Both check their payload and then only sleep (\<open>TODO: Implement actual restore logic
  here\<close>, \<open>TODO: Implement actual cleanup logic here\<close>): they read no row, spawn no
  process and touch neither the object store nor a file.
\<close>

definition processRestoreJob :: "world \<Rightarrow> Job \<Rightarrow> string option \<times> Job \<times> world" where
  "processRestoreJob w job =
     (if \<not> snd (as_string (jPayload job ''backup_id''))
      then (Some ''missing backup_id in job payload'', job, w)
      else if \<not> snd (as_string (jPayload job ''postgres_id''))
      then (Some ''missing postgres_id in job payload'', job, w)
      else if \<not> snd (as_string (jPayload job ''database_name''))
      then (Some ''missing database_name in job payload'', job, w)
      else (None, job, w))"

definition processCleanupJob :: "world \<Rightarrow> Job \<Rightarrow> string option \<times> Job \<times> world" where
  "processCleanupJob w job =
     (if \<not> snd (as_string (jPayload job ''postgres_id''))
      then (Some ''missing postgres_id in job payload'', job, w)
      else if \<not> snd (as_string (jPayload job ''backup_type''))
      then (Some ''missing backup_type in job payload'', job, w)
      else (None, job, w))"

subsection \<open>processJob\<close>

text \<open>
  \<open>processJob\<close> in its three parts: taking the job (the worker's current-job slot, the
  job's \<open>started_at\<close>, status and worker id; nothing is written to the database), the
  dispatch on the job type, and the bookkeeping after the handler returned, which ends
  with \<open>UpdateJobStatus\<close> (a failure of that update is logged and changes nothing).
\<close>

definition processJob_begin :: "Worker \<Rightarrow> Job \<Rightarrow> world \<Rightarrow> Worker \<times> Job \<times> world" where
  "processJob_begin wk job w =
     (case time_Now w of
        (now, w1) \<Rightarrow>
          (let job1 = job\<lparr>jStartedAt := Some now, jStatus := JobStatusRunning,
                          jWorkerID := wkID wk\<rparr>
           in (wk\<lparr>currentJob := Some job1, wkStatus := ''working''\<rparr>, job1, w1)))"

definition run_handler :: "world \<Rightarrow> Job \<Rightarrow> string option \<times> Job \<times> world" where
  "run_handler w job =
     (if jType job = JobTypeBackup then processBackupJob w job
      else if jType job = JobTypeRestore then processRestoreJob w job
      else if jType job = JobTypeCleanup then processCleanupJob w job
      else (Some (''unknown job type: '' @ jType job), job, w))"

definition settle_job :: "Job \<Rightarrow> string option \<Rightarrow> time \<Rightarrow> Job" where
  "settle_job job err completedAt =
     (case err of
        Some e \<Rightarrow>
          (let job1 = job\<lparr>jCompletedAt := Some completedAt, jError := e,
                          jRetryCount := go_incr (jRetryCount job)\<rparr>
           in if jRetryCount job1 < jMaxRetries job1
              then job1\<lparr>jStatus := JobStatusRetrying\<rparr>
              else job1\<lparr>jStatus := JobStatusFailed\<rparr>)
      | None \<Rightarrow> job\<lparr>jCompletedAt := Some completedAt, jStatus := JobStatusCompleted\<rparr>)"

definition processJob_finish ::
  "Worker \<Rightarrow> Job \<Rightarrow> string option \<Rightarrow> world \<Rightarrow> Worker \<times> Job \<times> world" where
  "processJob_finish wk job err w =
     (case time_Now w of
        (completedAt, w1) \<Rightarrow>
          (let job1 = settle_job job err completedAt;
               wk1 = wk\<lparr>lastJobAt := Some completedAt, jobsHandled := go_incr (jobsHandled wk),
                        currentJob := None, wkStatus := ''idle''\<rparr>
           in (wk1, job1,
               (case updateJobStatus (wdb w1) job1 of
                  Inl e \<Rightarrow> w1
                | Inr d \<Rightarrow> w1\<lparr>wdb := d\<rparr>))))"

definition processJob :: "Worker \<Rightarrow> Job \<Rightarrow> world \<Rightarrow> Worker \<times> Job \<times> world" where
  "processJob wk job w =
     (case processJob_begin wk job w of
        (wk1, job1, w1) \<Rightarrow>
          (case run_handler w1 job1 of
             (err, job2, w2) \<Rightarrow> processJob_finish wk1 job2 err w2))"


section \<open>Retention in the object store\<close>

text \<open>
  \<open>ListFiles\<close> is one \<open>ListObjectsV2\<close> request: the keys under the prefix in bytewise
  key order, at most 1000 of them. \<open>DeleteFile\<close> removes a key and logs it, or fails.
\<close>

definition has_prefix :: "string \<Rightarrow> string \<Rightarrow> bool" where
  "has_prefix p k = (take (length p) k = p)"

definition ListFiles :: "s3 \<Rightarrow> string \<Rightarrow> string list option" where
  "ListFiles s p =
     (if list_fails s then None
      else Some (take 1000 (filter (has_prefix p) (sort (objects s)))))"

definition DeleteFile :: "s3 \<Rightarrow> string \<Rightarrow> bool \<times> s3" where
  "DeleteFile s k =
     (if delete_fails s k then (False, s)
      else (True, s\<lparr>objects := removeAll k (objects s), s3_logged := s3_logged s @ [Deleted k]\<rparr>))"

text \<open>The loop of \<open>CleanupOldBackups\<close>: a failed deletion is logged and the loop goes on.\<close>

fun delete_each :: "s3 \<Rightarrow> string list \<Rightarrow> s3" where
  "delete_each s [] = s"
| "delete_each s (k # ks) =
     delete_each
       (case DeleteFile s k of
          (True, s') \<Rightarrow> s'
        | (False, s') \<Rightarrow> s'\<lparr>s3_logged := s3_logged s' @ [DeleteFailed k]\<rparr>) ks"

datatype go_result = Ok | Failed string | Panicked

text \<open>
  \<open>CleanupOldBackups\<close>. With a negative \<open>retentionCount\<close> the slice expression
  \<open>objects[:len(objects)-retentionCount]\<close> reaches past the listed objects. A slice
  expression is bounded by the capacity, not the length: past the capacity it panics at
  once; within the capacity it yields the listed objects followed by nil pointers, so the
  loop deletes every listed object and then panics on \<open>*obj.Key\<close> of the first nil,
  before the closing log line.
\<close>

definition CleanupOldBackups :: "s3 \<Rightarrow> string \<Rightarrow> int \<Rightarrow> go_result \<times> s3" where
  "CleanupOldBackups s pfx retentionCount =
     (case ListFiles s pfx of
        None \<Rightarrow> (Failed ''failed to list files from S3'', s)
      | Some objs \<Rightarrow>
          if int (length objs) \<le> retentionCount then (Ok, s)
          else if retentionCount < 0
          then (if nat (- retentionCount) \<le> list_spare s
                then (Panicked, delete_each s objs)
                else (Panicked, s))
          else (let objectsToDelete = take (length objs - nat retentionCount) objs;
                    s1 = delete_each s objectsToDelete
                in (Ok, s1\<lparr>s3_logged :=
                              s3_logged s1 @ [CleanedUp (length objectsToDelete) pfx]\<rparr>)))"

section \<open>The backup service\<close>

text \<open>
  \<open>internal/service\<close> holds the pipeline that runs inside the API process:
  \<open>UploadFile\<close>, \<open>DownloadFile\<close> and \<open>GenerateS3Key\<close> of the S3 client, and
  \<open>performBackup\<close>, \<open>RestoreBackup\<close> and \<open>cleanupOldBackups\<close> of \<open>BackupService\<close>.
  \<open>UploadFile\<close> opens the local file and sends it as one object. \<open>DownloadFile\<close>
  creates (or truncates) the local file first and then fetches the object into it; when
  the fetch fails the file stays.
\<close>

definition UploadFile :: "host \<Rightarrow> s3 \<Rightarrow> string \<Rightarrow> string \<Rightarrow> bool \<times> s3" where
  "UploadFile h s filePath s3Key =
     (if map_of (local_files h) filePath = None then (False, s)
      else if upload_fails s then (False, s)
      else (True, s\<lparr>objects := s3Key # removeAll s3Key (objects s),
                     s3_logged := s3_logged s @ [Uploaded filePath s3Key]\<rparr>))"

definition DownloadFile :: "host \<Rightarrow> s3 \<Rightarrow> string \<Rightarrow> string \<Rightarrow> bool \<times> host \<times> s3" where
  "DownloadFile h s s3Key localPath =
     (if create_fails h then (False, h, s)
      else (let h1 = h\<lparr>local_files :=
                          (localPath, 0) # filter (\<lambda>f. fst f \<noteq> localPath) (local_files h)\<rparr>
            in if download_fails s \<or> \<not> List.member (objects s) s3Key then (False, h1, s)
               else (True, h1, s\<lparr>s3_logged := s3_logged s @ [Downloaded s3Key localPath]\<rparr>)))"

text \<open>
  \<open>strings.Split(s, "-")\<close>, and \<open>GenerateS3Key\<close>, which takes the year and the month
  from the first two parts of the timestamp and panics (\<open>None\<close>) when there are fewer.
\<close>

fun split_on :: "char \<Rightarrow> string \<Rightarrow> string list" where
  "split_on c [] = [[]]"
| "split_on c (x # xs) =
     (if x = c then [] # split_on c xs
      else (case split_on c xs of [] \<Rightarrow> [[x]] | part # parts \<Rightarrow> (x # part) # parts))"

definition GenerateS3Key :: "string \<Rightarrow> string \<Rightarrow> string \<Rightarrow> string \<Rightarrow> string option" where
  "GenerateS3Key postgresID backupType timestamp filename =
     (case split_on CHR ''-'' timestamp of
        year # month # rest \<Rightarrow>
          Some (''backups/'' @ postgresID @ ''/'' @ backupType @ ''/'' @ year @ ''/'' @ month
                  @ ''/'' @ filename)
      | _ \<Rightarrow> None)"

text \<open>
  \<open>performBackup\<close>, on the struct it is given (the in-memory map of the service holds
  the same pointer; saving the map to disk is not modelled, and the retention cleanup it
  starts as a goroutine at its end is \<open>cleanupOldBackups\<close> below). \<open>None\<close> is a
  panic: of \<open>backupInfo.ID[:8]\<close>, the first statement, when the id has fewer than eight
  bytes, or of \<open>GenerateS3Key\<close>.
\<close>

definition performBackup ::
  "string \<Rightarrow> world \<Rightarrow> BackupInfo \<Rightarrow> PostgreSQLConfig \<Rightarrow> string \<Rightarrow> string \<Rightarrow> (BackupInfo \<times> world) option" where
  "performBackup tempDir w backupInfo pgConfig filename timestamp =
     (if length (bID backupInfo) < 8 then None else
      let b1 = backupInfo\<lparr>bStatus := BackupStatusInProgress\<rparr>;
          localPath = filepath_Join (whost w) tempDir filename;
          h1 = spawn_pg_dump (whost w) pgConfig (bDatabaseName b1) localPath;
          w1 = w\<lparr>whost := h1\<rparr>
      in case pg_dump_err (whost w) of
           Some err \<Rightarrow>
             (case time_Now w1 of
                (endTime, w2) \<Rightarrow>
                  Some (b1\<lparr>bStatus := BackupStatusFailed,
                           bErrorMessage := ''pg_dump failed: '' @ err,
                           bEndTime := Some endTime\<rparr>, w2))
         | None \<Rightarrow>
             (case map_of (local_files h1) localPath of
                None \<Rightarrow>
                  (case time_Now w1 of
                     (endTime, w2) \<Rightarrow>
                       Some (b1\<lparr>bStatus := BackupStatusFailed,
                                bErrorMessage := ''failed to get file info: stat'',
                                bEndTime := Some endTime\<rparr>, w2))
              | Some sz \<Rightarrow>
                  (case GenerateS3Key (bPostgreSQLID b1) (bBackupType b1) timestamp filename of
                     None \<Rightarrow> None
                   | Some s3Key \<Rightarrow>
                       (let b2 = b1\<lparr>bFileSize := sz, bFilePath := localPath, bS3Key := s3Key\<rparr>
                        in case UploadFile h1 (ws3 w1) localPath s3Key of
                             (False, s') \<Rightarrow>
                               (case time_Now w1 of
                                  (endTime, w2) \<Rightarrow>
                                    Some (b2\<lparr>bStatus := BackupStatusFailed,
                                             bErrorMessage := ''S3 upload failed: upload'',
                                             bEndTime := Some endTime\<rparr>, w2))
                           | (True, s') \<Rightarrow>
                               (case time_Now
                                       (w1\<lparr>ws3 := s',
                                           whost := h1\<lparr>local_files :=
                                                          filter (\<lambda>f. fst f \<noteq> localPath)
                                                            (local_files h1)\<rparr>\<rparr>) of
                                  (endTime, w2) \<Rightarrow>
                                    Some (b2\<lparr>bStatus := BackupStatusCompleted,
                                             bEndTime := Some endTime\<rparr>, w2))))))"

text \<open>
  \<open>RestoreBackup\<close>, given the service's map of backups, its configured instances and its
  temp directory. The \<open>defer os.Remove(localPath)\<close> is registered after the download
  has succeeded.
\<close>

definition psql_argv :: "PostgreSQLConfig \<Rightarrow> string \<Rightarrow> string \<Rightarrow> string list" where
  "psql_argv pgConfig databaseName localPath =
     [''psql'', ''-h'', pHost pgConfig, ''-p'', fmt_d (pPort pgConfig),
      ''-U'', pUsername pgConfig, ''-d'', databaseName, ''-f'', localPath, ''--quiet'']"

definition restore_path :: "host \<Rightarrow> string \<Rightarrow> string \<Rightarrow> time \<Rightarrow> string" where
  "restore_path h tempDir backupID now =
     filepath_Join h tempDir
       (''restore_'' @ backupID @ ''_'' @ fmt_d (now div 1000000000) @ ''.sql'')"

definition RestoreBackup ::
  "(string \<rightharpoonup> BackupInfo) \<Rightarrow> PostgreSQLConfig list \<Rightarrow> string \<Rightarrow> world \<Rightarrow> string \<Rightarrow> string \<Rightarrow> string
     \<Rightarrow> string option \<times> world" where
  "RestoreBackup known insts tempDir w backupID postgresID databaseName =
     (case known backupID of
        None \<Rightarrow> (Some (''backup '' @ backupID @ '' not found''), w)
      | Some backupInfo \<Rightarrow>
          if bStatus backupInfo \<noteq> BackupStatusCompleted
          then (Some (''backup '' @ backupID @ '' is not completed''), w)
          else
            (case find (\<lambda>pg. pID pg = postgresID) insts of
               None \<Rightarrow> (Some (''PostgreSQL instance '' @ postgresID @ '' not found''), w)
             | Some pgConfig \<Rightarrow>
                 (case time_Now w of
                    (now, w1) \<Rightarrow>
                      (let localPath = restore_path (whost w1) tempDir backupID now
                       in case DownloadFile (whost w1) (ws3 w1) (bS3Key backupInfo) localPath of
                            (False, h1, s1) \<Rightarrow>
                              (Some ''failed to download backup: download'',
                               w1\<lparr>whost := h1, ws3 := s1\<rparr>)
                          | (True, h1, s1) \<Rightarrow>
                              (let h2 = h1\<lparr>execs := execs h1 @
                                              [(psql_argv pgConfig databaseName localPath,
                                                pPassword pgConfig)]\<rparr>;
                                   h3 = h2\<lparr>local_files :=
                                              filter (\<lambda>f. fst f \<noteq> localPath) (local_files h2)\<rparr>
                               in ((case psql_err h1 of
                                      Some err \<Rightarrow> Some (''psql restore failed: '' @ err)
                                    | None \<Rightarrow> None),
                                   w1\<lparr>whost := h3, ws3 := s1\<rparr>))))))"

text \<open>
  \<open>cleanupOldBackups\<close>: the retention count of the cadence, the prefix of the (instance,
  cadence) pair, and \<open>CleanupOldBackups\<close>; manual backups are left alone, and an error
  of the cleanup is only printed.
\<close>

record RetentionPolicy =
  Hourly :: int
  Daily :: int
  Weekly :: int
  Monthly :: int

definition cleanupOldBackups :: "RetentionPolicy \<Rightarrow> s3 \<Rightarrow> string \<Rightarrow> string \<Rightarrow> go_result \<times> s3" where
  "cleanupOldBackups policy s postgresID backupType =
     (if backupType \<in> set [''hourly'', ''daily'', ''weekly'', ''monthly'']
      then (case CleanupOldBackups s (''backups/'' @ postgresID @ ''/'' @ backupType @ ''/'')
                   (if backupType = ''hourly'' then Hourly policy
                    else if backupType = ''daily'' then Daily policy
                    else if backupType = ''weekly'' then Weekly policy
                    else Monthly policy) of
              (Panicked, s') \<Rightarrow> (Panicked, s')
            | (r, s') \<Rightarrow> (Ok, s'))
      else (Ok, s))"

section \<open>The scheduler\<close>

text \<open>
  The body of the inner loop of \<open>createBackupJobsForAllEnabledInstances\<close>, for one
  instance and one database name: the backup row, the job handed to \<open>AddJob\<close>, and the
  update of the backup with the job's id. The result says whether \<open>jobsCreated\<close> was
  incremented; \<open>None\<close> is the panic of a send on a closed channel. \<open>pick\<close> resolves the
  \<open>select\<close> of each \<open>AddJob\<close>, indexed by the number of clock readings made so far.
\<close>

definition scheduled_backup ::
  "string \<Rightarrow> string \<Rightarrow> string \<Rightarrow> time \<Rightarrow> time \<Rightarrow> time \<Rightarrow> BackupInfo" where
  "scheduled_backup instanceID dbName backupType t1 t2 t3 =
     \<lparr>bID = ''backup_'' @ fmt_d t1, bPostgreSQLID = instanceID, bDatabaseName = dbName,
      bBackupType = backupType, bStatus = BackupStatusPending, bStartTime = t2,
      bEndTime = None, bFilePath = [], bFileSize = 0, bJobID = [], bS3Key = [],
      bErrorMessage = [], bCreatedAt = t3\<rparr>"

definition scheduled_job :: "string \<Rightarrow> string \<Rightarrow> string \<Rightarrow> string \<Rightarrow> Job" where
  "scheduled_job instanceID dbName backupType backupID =
     \<lparr>jID = [], jType = JobTypeBackup, jStatus = [], jPriority = 7,
      jPayload = [''postgres_id'' \<mapsto> PStr instanceID, ''database_name'' \<mapsto> PStr dbName,
                  ''backup_type'' \<mapsto> PStr backupType, ''backup_id'' \<mapsto> PStr backupID],
      jRetryCount = 0, jMaxRetries = 3, jCreatedAt = zero_time, jStartedAt = None,
      jCompletedAt = None, jError = [], jWorkerID = []\<rparr>"

definition schedule_one ::
  "(nat \<Rightarrow> bool) \<Rightarrow> world \<Rightarrow> PostgreSQLConfig \<Rightarrow> string \<Rightarrow> string \<Rightarrow> (bool \<times> world) option" where
  "schedule_one pick w inst dbName backupType =
     (case time_Now w of (t1, w1) \<Rightarrow>
      case time_Now w1 of (t2, w2) \<Rightarrow>
      case time_Now w2 of (t3, w3) \<Rightarrow>
        (let backup = scheduled_backup (pID inst) dbName backupType t1 t2 t3
         in case backups_Create (wdb w3) backup of
              Inl e \<Rightarrow> Some (False, w3)
            | Inr d \<Rightarrow>
                (case AddJob (pick (reads w3)) (w3\<lparr>wdb := d\<rparr>)
                        (scheduled_job (pID inst) dbName backupType (bID backup)) of
                   (Some SendOnClosedChannel, job, w4) \<Rightarrow> None
                 | (Some e, job, w4) \<Rightarrow> Some (False, w4)
                 | (None, job, w4) \<Rightarrow>
                     Some (True,
                           (case backups_Update (wdb w4) (backup\<lparr>bJobID := jID job\<rparr>) of
                              Inl e \<Rightarrow> w4
                            | Inr d' \<Rightarrow> w4\<lparr>wdb := d'\<rparr>)))))"

fun schedule_databases ::
  "(nat \<Rightarrow> bool) \<Rightarrow> world \<Rightarrow> PostgreSQLConfig \<Rightarrow> string list \<Rightarrow> string \<Rightarrow> nat \<Rightarrow> (nat \<times> world) option" where
  "schedule_databases pick w inst [] backupType n = Some (n, w)"
| "schedule_databases pick w inst (dbName # rest) backupType n =
     (case schedule_one pick w inst dbName backupType of
        None \<Rightarrow> None
      | Some (created, w') \<Rightarrow>
          schedule_databases pick w' inst rest backupType (if created then Suc n else n))"

definition databases_of :: "PostgreSQLConfig \<Rightarrow> string list" where
  "databases_of inst = (if pDatabases inst = [] then [''postgres''] else pDatabases inst)"

fun schedule_instances ::
  "(nat \<Rightarrow> bool) \<Rightarrow> world \<Rightarrow> PostgreSQLConfig list \<Rightarrow> string \<Rightarrow> nat \<Rightarrow> (nat \<times> world) option" where
  "schedule_instances pick w [] backupType n = Some (n, w)"
| "schedule_instances pick w (inst # rest) backupType n =
     (case schedule_databases pick w inst (databases_of inst) backupType n of
        None \<Rightarrow> None
      | Some (n', w') \<Rightarrow> schedule_instances pick w' rest backupType n')"

definition createBackupJobsForAllEnabledInstances ::
  "(nat \<Rightarrow> bool) \<Rightarrow> world \<Rightarrow> string \<Rightarrow> (nat \<times> world) option" where
  "createBackupJobsForAllEnabledInstances pick w backupType =
     (case GetEnabled (wdb w) of
        Inl e \<Rightarrow> Some (0, w)
      | Inr enabled_instances \<Rightarrow> schedule_instances pick w enabled_instances backupType 0)"


section \<open>Concrete worlds\<close>

text \<open>
  A small installation the properties below are evaluated on: one instance \<open>pg1\<close>, a
  clock that starts at 2023-11-14T22:13:20Z and advances by a nanosecond per reading, a
  host on which \<open>pg_dump\<close> succeeds and leaves a file of 4096 bytes, and an empty
  object store.
\<close>

definition clock0 :: "nat \<Rightarrow> time" where
  "clock0 n = 1700000000000000000 + int n"

definition pg1 :: instance_row where
  "pg1 = \<lparr>i_id = ''pg1'', i_name = ''main'', i_host = ''db.internal'', i_port = 5432,
           i_username = ''postgres'', i_password = ''secret'', i_databases = DbArray [''app''],
           i_enabled = True, i_ssl_mode = ''prefer'',
           i_created_at = Some 1699990000000000000,
           i_updated_at = Some 1699990000000000000\<rparr>"

definition host0 :: host where
  "host0 = \<lparr>temp_dir_env = [], mkdir_fails = False, pg_dump_err = None, pg_dump_out = [],
             pg_dump_writes = Some 4096, psql_err = None, create_fails = False,
             local_files = [], execs = [],
             filepath_Join = (\<lambda>d f. d @ ''/'' @ f),
             fmt_time = (\<lambda>t. ''2023-11-14-22-13-20'')\<rparr>"

definition store0 :: s3 where
  "store0 = \<lparr>objects = [], list_fails = False, upload_fails = False, download_fails = False,
              delete_fails = (\<lambda>k. False), list_spare = 0, s3_logged = []\<rparr>"

definition db_init :: "string list \<Rightarrow> db" where
  "db_init chk = \<lparr>jobs = [], backups = [], instances = [pg1], jobs_status_check = chk,
                   available = True\<rparr>"

definition world0 :: "db \<Rightarrow> world" where
  "world0 d = \<lparr>wdb = d, chan = [], chan_closed = False, ctx_done = False, clk = clock0,
                reads = 0, whost = host0, ws3 = store0\<rparr>"

text \<open>A row of the jobs table for instance \<open>pg1\<close>, and a job with an empty payload.\<close>

definition job_in_row :: "string \<Rightarrow> string \<Rightarrow> string \<Rightarrow> int \<Rightarrow> time option \<Rightarrow> job_row" where
  "job_in_row i ty st mx started =
     \<lparr>r_id = i, r_type = ty, r_postgres_id = Some ''pg1'', r_database_name = Some ''app'',
      r_backup_id = Some [], r_priority = 5, r_payload = None, r_status = st,
      r_retry_count = 0, r_max_retries = mx, r_error_message = None,
      r_created_at = 1699999000000000000, r_started_at = started, r_completed_at = None\<rparr>"

definition bare_job :: "string \<Rightarrow> string \<Rightarrow> int \<Rightarrow> Job" where
  "bare_job i ty mx =
     \<lparr>jID = i, jType = ty, jStatus = JobStatusPending, jPriority = 5, jPayload = Map.empty,
      jRetryCount = 0, jMaxRetries = mx, jCreatedAt = 1699999000000000000, jStartedAt = None,
      jCompletedAt = None, jError = [], jWorkerID = []\<rparr>"

text \<open>
  A jobs table with a retrying row, a row left \<open>running\<close> ten minutes before
  2023-11-14T22:13:20Z, and a pending row.
\<close>

definition three_rows :: db where
  "three_rows =
     (db_init migrate_add_jobs_table_status)
       \<lparr>jobs := [job_in_row ''j_retrying'' JobTypeBackup JobStatusRetrying 3
                   (Some 1699999990000000000),
                 job_in_row ''j_stale'' JobTypeBackup JobStatusRunning 3
                   (Some 1699999400000000000),
                 job_in_row ''j_pending'' JobTypeBackup JobStatusPending 3 None]\<rparr>"

text \<open>
  An hourly backup job for backup \<open>b1\<close>; the world of a process that persisted it with
  \<open>AddJob\<close> and was restarted (the row is in the table, the channel is empty); and a
  world whose channel is full.
\<close>

definition hourly_job :: Job where
  "hourly_job =
     (bare_job ''j1'' JobTypeBackup 3)
       \<lparr>jPayload := [''postgres_id'' \<mapsto> PStr ''pg1'', ''database_name'' \<mapsto> PStr ''app'',
                     ''backup_type'' \<mapsto> PStr ''hourly'', ''backup_id'' \<mapsto> PStr ''b1'']\<rparr>"

definition after_restart :: world where
  "after_restart =
     (snd (snd (AddJob True (world0 (db_init migrate_add_jobs_table_status)) hourly_job)))
       \<lparr>chan := []\<rparr>"

definition full_world :: world where
  "full_world =
     (world0 (db_init migrate_add_jobs_table_status))
       \<lparr>chan := replicate 1000 (bare_job ''old'' JobTypeCleanup 2)\<rparr>"

text \<open>
  Backup \<open>b1\<close> of database \<open>app\<close> on \<open>pg1\<close>, a database holding it together with
  the row of job \<open>j1\<close>, and a restore job for it.
\<close>

definition backup_b1 :: "string \<Rightarrow> BackupInfo" where
  "backup_b1 st =
     \<lparr>bID = ''b1'', bPostgreSQLID = ''pg1'', bDatabaseName = ''app'', bBackupType = ''hourly'',
      bStatus = st, bStartTime = 1699999000000000000, bEndTime = None, bFilePath = [],
      bFileSize = 0, bJobID = [], bS3Key = [], bErrorMessage = [],
      bCreatedAt = 1699999000000000000\<rparr>"

definition db_b1 :: "string \<Rightarrow> string \<Rightarrow> string \<Rightarrow> db" where
  "db_b1 backup_status job_type job_status =
     (db_init migrate_add_jobs_table_status)
       \<lparr>backups := [backup_b1 backup_status],
        jobs := [(job_in_row ''j1'' job_type job_status 3 (Some 1699999990000000000))
                   \<lparr>r_backup_id := Some ''b1''\<rparr>]\<rparr>"

definition restore_job :: Job where
  "restore_job =
     (bare_job ''j1'' JobTypeRestore 1)
       \<lparr>jPayload := [''backup_id'' \<mapsto> PStr ''b1'', ''postgres_id'' \<mapsto> PStr ''pg1'',
                     ''database_name'' \<mapsto> PStr ''app_restored'']\<rparr>"

text \<open>
  An interleaving of one process with two workers: \<open>AddJob\<close> persists the hourly job and
  hands it to the channel; worker-1 receives it and starts on it; the loader ticks;
  worker-2 receives what the loader delivered and starts on it.
\<close>

definition double_delivery :: "(Worker \<times> Worker \<times> world) option" where
  "double_delivery =
     (case AddJob True (world0 (db_init migrate_add_jobs_table_status)) hourly_job of
        (r, job, w1) \<Rightarrow>
          (case receive w1 of
             None \<Rightarrow> None
           | Some (job1, w2) \<Rightarrow>
               (case processJob_begin (NewWorker ''worker-1'') job1 w2 of
                  (wk1, job1', w3) \<Rightarrow>
                    (case loadJobsFromDatabase 1700000000000000000 w3 of
                       None \<Rightarrow> None
                     | Some (n, w4) \<Rightarrow>
                         (case receive w4 of
                            None \<Rightarrow> None
                          | Some (job2, w5) \<Rightarrow>
                              (case processJob_begin (NewWorker ''worker-2'') job2 w5 of
                                 (wk2, job2', w6) \<Rightarrow> Some (wk1, wk2, w6)))))))"

text \<open>
  An object store with six hourly dumps and a daily one of \<open>pg1\<close>, in which deleting the
  second-oldest hourly dump fails, and whose listings have room for two more objects. A
  cleanup job for the hourly dumps of \<open>pg1\<close>.
\<close>

definition six_hourly :: s3 where
  "six_hourly =
     \<lparr>objects = [''backups/pg1/hourly/2023/11/h03.sql'', ''backups/pg1/hourly/2023/11/h01.sql'',
                 ''backups/pg1/daily/2023/11/d01.sql'', ''backups/pg1/hourly/2023/11/h02.sql'',
                 ''backups/pg1/hourly/2023/11/h06.sql'', ''backups/pg1/hourly/2023/11/h04.sql'',
                 ''backups/pg1/hourly/2023/11/h05.sql''],
      list_fails = False, upload_fails = False, download_fails = False,
      delete_fails = (\<lambda>k. k = ''backups/pg1/hourly/2023/11/h02.sql''),
      list_spare = 2, s3_logged = []\<rparr>"

definition cleanup_job :: Job where
  "cleanup_job =
     (bare_job ''j1'' JobTypeCleanup 1)
       \<lparr>jPayload := [''postgres_id'' \<mapsto> PStr ''pg1'', ''backup_type'' \<mapsto> PStr ''hourly'']\<rparr>"

section \<open>What a tick of the scheduler is expected to add\<close>


fun planned :: "(nat \<Rightarrow> time) \<Rightarrow> nat \<Rightarrow> string \<Rightarrow> (string \<times> string) list \<Rightarrow> (BackupInfo \<times> Job) list" where
  "planned c r backupType [] = []"
| "planned c r backupType ((instanceID, dbName) # rest) =
     (scheduled_backup instanceID dbName backupType (c r) (c (r + 1)) (c (r + 2)),
      (scheduled_job instanceID dbName backupType (''backup_'' @ fmt_d (c r)))
        \<lparr>jID := generateJobID (c (r + 3)), jCreatedAt := c (r + 4),
         jStatus := JobStatusPending\<rparr>)
     # planned c (r + 5) backupType rest"




text \<open>
  Three instances: \<open>A\<close> with databases \<open>d1\<close> and \<open>d2\<close>, \<open>B\<close> with none configured,
  and \<open>C\<close>, disabled. A fourth, \<open>D\<close>, is enabled and has NULL in its
  \<open>databases\<close> column.
\<close>

definition inst_A :: instance_row where
  "inst_A = pg1\<lparr>i_id := ''A'', i_name := ''alpha'', i_databases := DbArray [''d1'', ''d2'']\<rparr>"

definition inst_B :: instance_row where
  "inst_B = pg1\<lparr>i_id := ''B'', i_name := ''beta'', i_databases := DbArray []\<rparr>"

definition inst_C :: instance_row where
  "inst_C = pg1\<lparr>i_id := ''C'', i_name := ''gamma'', i_enabled := False\<rparr>"

definition inst_D :: instance_row where
  "inst_D = pg1\<lparr>i_id := ''D'', i_name := ''delta'', i_databases := DbNull\<rparr>"

definition fan_out_world :: world where
  "fan_out_world =
     world0 ((db_init migrate_add_jobs_table_status)\<lparr>instances := [inst_C, inst_B, inst_A]\<rparr>)"

section \<open>Properties\<close>

lemmas db_defs =
  update_jobs_def updateJobStatus_def claim_job_def rollback_job_def insert_job_def
  job_row_ok_def job_row_in_range_def int4_def jobs_type_check_def eligible_def
  select_eligible_def order_jobs_def job_before_def five_minutes_def
  backups_Create_def backups_Update_def backups_GetByID_def backups_type_check_def
  backups_status_check_def instances_GetByID_def scanPostgreSQL_def GetEnabled_def
  select_enabled_def unmarshal_databases_def

lemmas worker_defs =
  processJob_def processJob_begin_def run_handler_def processJob_finish_def settle_job_def
  processRestoreJob_def processCleanupJob_def NewWorker_def IsActive_def receive_def
  as_string_def go_incr_def time_Now_def Let_def

lemmas fixture_defs =
  clock0_def pg1_def host0_def store0_def db_init_def world0_def job_in_row_def bare_job_def

subsection \<open>The status check constraint of the jobs table\<close>

text \<open>
  C5. Every status the application writes to the jobs table is admitted by the table's
  check constraint, so that writing \<open>retrying\<close> is legal. This fails on
  \<open>schema_postgres.sql\<close>: its constraint lists \<open>cancelled\<close> where the application
  writes \<open>retrying\<close>. A restore job with an empty payload and \<open>max_retries = 3\<close> fails
  in its handler; the worker sets the struct to \<open>retrying\<close>, the update of the row is
  refused, and the row stays \<open>running\<close>.
\<close>

theorem schema_postgres_rejects_retrying:
  "\<not> list_all (List.member schema_postgres_jobs_status) job_statuses \<and>
   (case processJob (NewWorker ''worker-1'') (bare_job ''j1'' JobTypeRestore 3)
           (world0 ((db_init schema_postgres_jobs_status)
              \<lparr>jobs := [job_in_row ''j1'' JobTypeRestore JobStatusRunning 3
                           (Some 1699999990000000000)]\<rparr>)) of
      (wk, job, w) \<Rightarrow> (jStatus job, jRetryCount job, map r_status (jobs (wdb w))))
   = (JobStatusRetrying, 1, [JobStatusRunning])"
  by (simp add: worker_defs db_defs fixture_defs schema_postgres_jobs_status_def
      job_statuses_def)

text \<open>
  On a table created by \<open>migrate_add_jobs_table.sql\<close> all five statuses are admitted and
  the same run writes \<open>retrying\<close> to the row.
\<close>

lemma migrate_add_jobs_table_admits_retrying:
  "list_all (List.member migrate_add_jobs_table_status) job_statuses \<and>
   (case processJob (NewWorker ''worker-1'') (bare_job ''j1'' JobTypeRestore 3)
           (world0 ((db_init migrate_add_jobs_table_status)
              \<lparr>jobs := [job_in_row ''j1'' JobTypeRestore JobStatusRunning 3
                           (Some 1699999990000000000)]\<rparr>)) of
      (wk, job, w) \<Rightarrow> (jStatus job, jRetryCount job, map r_status (jobs (wdb w))))
   = (JobStatusRetrying, 1, [JobStatusRetrying])"
  by (simp add: worker_defs db_defs fixture_defs migrate_add_jobs_table_status_def
      job_statuses_def)

subsection \<open>Retry accounting in processJob\<close>

text \<open>No handler changes the retry counters, the id or the type of its job.\<close>

lemma resolve_backup_job:
  "resolve_backup w job p n t = (r, job', w') \<Longrightarrow>
     jRetryCount job' = jRetryCount job \<and> jMaxRetries job' = jMaxRetries job \<and>
     jID job' = jID job \<and> jType job' = jType job"
  by (auto simp: resolve_backup_def time_Now_def Let_def split: prod.splits sum.splits if_splits)

lemma processBackupJob_job:
  "processBackupJob w job = (r, job', w') \<Longrightarrow>
     jRetryCount job' = jRetryCount job \<and> jMaxRetries job' = jMaxRetries job \<and>
     jID job' = jID job \<and> jType job' = jType job"
  unfolding processBackupJob_def
  by (auto simp: time_Now_def Let_def split: prod.splits sum.splits if_splits
           dest!: resolve_backup_job)

lemma run_handler_job:
  "run_handler w job = (r, job', w') \<Longrightarrow>
     jRetryCount job' = jRetryCount job \<and> jMaxRetries job' = jMaxRetries job \<and>
     jID job' = jID job \<and> jType job' = jType job"
  unfolding run_handler_def
  by (auto simp: processRestoreJob_def processCleanupJob_def split: if_splits
           dest!: processBackupJob_job)

text \<open>
  C6. When the handler returns an error the worker increments \<open>retry_count\<close> and sets
  the status to \<open>retrying\<close> exactly when the incremented count is below \<open>max_retries\<close>,
  and to \<open>failed\<close> otherwise; when the handler succeeds the status is \<open>completed\<close>. A
  job with \<open>max_retries = 1\<close> that fails its first run is \<open>failed\<close>.
\<close>

theorem processJob_retry_accounting:
  assumes "processJob_begin wk job w = (wk1, job1, w1)"
    and "run_handler w1 job1 = (err, job2, w2)"
    and "processJob wk job w = (wk', job', w')"
  shows "(err = None \<longrightarrow> jStatus job' = JobStatusCompleted) \<and>
         (err \<noteq> None \<longrightarrow>
            jRetryCount job' = go_incr (jRetryCount job) \<and>
            jMaxRetries job' = jMaxRetries job \<and>
            jStatus job' = (if jRetryCount job' < jMaxRetries job' then JobStatusRetrying
                            else JobStatusFailed)) \<and>
         (err \<noteq> None \<and> jMaxRetries job = 1 \<and> jRetryCount job = 0 \<longrightarrow>
            jStatus job' = JobStatusFailed)"
proof -
  from assms(1) have b: "jRetryCount job1 = jRetryCount job" "jMaxRetries job1 = jMaxRetries job"
    by (auto simp: processJob_begin_def time_Now_def Let_def)
  from run_handler_job[OF assms(2)] b
  have h: "jRetryCount job2 = jRetryCount job" "jMaxRetries job2 = jMaxRetries job"
    by simp_all
  from assms have j: "job' = settle_job job2 err (clk w2 (reads w2))"
    by (auto simp: processJob_def processJob_finish_def time_Now_def Let_def split: sum.splits)
  show ?thesis
    using h unfolding j
    by (cases err) (auto simp: settle_job_def Let_def go_incr_def)
qed

text \<open>
  A restore job with \<open>max_retries = 1\<close> whose payload lacks \<open>backup_id\<close>: the handler
  fails, and the job ends \<open>failed\<close> with \<open>retry_count = 1\<close>.
\<close>

theorem processJob_retry_accounting_witness:
  "fst (run_handler
          (snd (snd (processJob_begin (NewWorker ''worker-1'') (bare_job ''j1'' JobTypeRestore 1)
                       (world0 (db_init migrate_add_jobs_table_status)))))
          (fst (snd (processJob_begin (NewWorker ''worker-1'') (bare_job ''j1'' JobTypeRestore 1)
                       (world0 (db_init migrate_add_jobs_table_status))))))
     = Some ''missing backup_id in job payload'' \<and>
   jStatus (fst (snd (processJob (NewWorker ''worker-1'') (bare_job ''j1'' JobTypeRestore 1)
                        (world0 (db_init migrate_add_jobs_table_status))))) = JobStatusFailed \<and>
   jRetryCount (fst (snd (processJob (NewWorker ''worker-1'') (bare_job ''j1'' JobTypeRestore 1)
                        (world0 (db_init migrate_add_jobs_table_status))))) = 1"
  using processJob_retry_accounting
          [of "NewWorker ''worker-1''" "bare_job ''j1'' JobTypeRestore 1"
              "world0 (db_init migrate_add_jobs_table_status)"
              "fst (processJob_begin (NewWorker ''worker-1'') (bare_job ''j1'' JobTypeRestore 1)
                      (world0 (db_init migrate_add_jobs_table_status)))"
              "fst (snd (processJob_begin (NewWorker ''worker-1'') (bare_job ''j1'' JobTypeRestore 1)
                      (world0 (db_init migrate_add_jobs_table_status))))"
              "snd (snd (processJob_begin (NewWorker ''worker-1'') (bare_job ''j1'' JobTypeRestore 1)
                      (world0 (db_init migrate_add_jobs_table_status))))"]
  by (simp add: worker_defs db_defs fixture_defs migrate_add_jobs_table_status_def)

subsection \<open>The loader's claim\<close>

lemmas queue_defs =
  AddJob_def prepare_job_def persistJob_def job_row_of_def IsZero_def zero_time_def chan_cap_def
  loadJobsFromDatabase_def job_of_row_def

text \<open>
  C1. Every row the loader's query returns (pending, retrying, or running for more than
  five minutes) is matched by the claim update and delivered. This fails: the query
  selects all three kinds, but the update's condition is \<open>status = 'pending'\<close> whatever
  the row's status was. On a table holding one row of each kind the query returns all
  three; the tick claims and delivers the pending one only, and the retrying row and the
  stale running row are left as they were, so the next tick finds them again in the same
  state.
\<close>

theorem loader_claims_pending_rows_only:
  "map r_id (select_eligible 1700000000000000000 three_rows)
     = [''j_retrying'', ''j_stale'', ''j_pending''] \<and>
   (case loadJobsFromDatabase 1700000000000000000 (world0 three_rows) of
      None \<Rightarrow> (0, [], [])
    | Some (n, w) \<Rightarrow>
        (n, map jID (chan w),
         map (\<lambda>r. (r_id r, r_status r, r_started_at r)) (jobs (wdb w))))
   = (1, [''j_pending''],
      [(''j_retrying'', JobStatusRetrying, Some 1699999990000000000),
       (''j_stale'', JobStatusRunning, Some 1699999400000000000),
       (''j_pending'', JobStatusRunning, Some 1700000000000000002)])"
  by (simp add: queue_defs db_defs worker_defs fixture_defs three_rows_def
      migrate_add_jobs_table_status_def)

text \<open>
  In general: a claim on an id none of whose rows is pending changes nothing and reports
  no affected row, at any time.
\<close>

lemma claim_job_needs_pending:
  assumes "available d"
    and "list_all (\<lambda>r. r_id r = i \<longrightarrow> r_status r \<noteq> ''pending'') (jobs d)"
  shows "claim_job d t i = Inr (0, d)"
proof -
  have e: "filter (\<lambda>r. r_id r = i \<and> r_status r = ''pending'') (jobs d) = []"
    using assms(2) by (auto simp: filter_empty_conv list_all_iff)
  have m: "map (\<lambda>r. if r_id r = i \<and> r_status r = ''pending''
                     then r\<lparr>r_status := ''running'', r_started_at := Some t\<rparr> else r) (jobs d)
           = jobs d"
    using assms(2) by (intro map_idI) (auto simp: list_all_iff)
  show ?thesis
    using assms(1) by (simp add: claim_job_def update_jobs_def e m)
qed

subsection \<open>The payload of a reloaded job\<close>

lemma set_insert_by: "set (insert_by a rs) = insert a (set rs)"
  by (induction rs) auto

lemma set_order_jobs: "set (order_jobs rs) = set rs"
  by (induction rs) (auto simp: order_jobs_def set_insert_by)

lemma select_eligible_subset:
  "r \<in> set (select_eligible now d) \<Longrightarrow> r \<in> set (jobs d) \<and> eligible now r"
  unfolding select_eligible_def
  by (auto dest!: in_set_takeD simp: set_order_jobs)

lemma job_of_row_payload:
  "job_of_row r = Some job \<Longrightarrow>
     jID job = r_id r \<and> jPayload job ''backup_type'' = Some (PStr ''manual'') \<and>
     r_backup_id r \<noteq> None \<and> jPayload job ''backup_id'' = map_option PStr (r_backup_id r)"
  by (auto simp: job_of_row_def split: option.splits)

text \<open>The loop only appends to the channel, and what it appends was built from a row.\<close>

lemma load_rows_chan:
  "load_rows w rs n = Some (n', w') \<Longrightarrow>
     \<exists>loaded. chan w' = chan w @ loaded \<and>
              list_all (\<lambda>job. \<exists>r \<in> set rs. job_of_row r = Some job) loaded"
proof (induction rs arbitrary: w n)
  case Nil
  then show ?case by simp
next
  case (Cons r rs)
  show ?case
  proof (cases "job_of_row r")
    case None
    with Cons.prems have "load_rows w rs n = Some (n', w')" by simp
    from Cons.IH[OF this] show ?thesis
      by (auto simp: list_all_iff)
  next
    case (Some job)
    show ?thesis
      using Cons.prems Some
      by (auto simp: time_Now_def list_all_iff split: sum.splits prod.splits if_splits
               dest!: Cons.IH)
  qed
qed

text \<open>
  C10. Every job a tick of the loader puts into the channel was built from an eligible
  row of the jobs table; its payload's \<open>backup_type\<close> is the constant \<open>"manual"\<close> and
  its \<open>backup_id\<close> is the row's \<open>backup_id\<close> column, whatever payload the job was
  enqueued with.
\<close>

theorem loader_rebuilds_payload:
  assumes "loadJobsFromDatabase db_now w = Some (n, w')"
  shows "\<exists>loaded. chan w' = chan w @ loaded \<and>
           list_all (\<lambda>job. \<exists>r \<in> set (jobs (wdb w)).
                        eligible db_now r \<and> jID job = r_id r \<and>
                        jPayload job ''backup_type'' = Some (PStr ''manual'') \<and>
                        r_backup_id r \<noteq> None \<and>
                        jPayload job ''backup_id'' = map_option PStr (r_backup_id r)) loaded"
proof (cases "available (wdb w)")
  case False
  with assms show ?thesis by (simp add: loadJobsFromDatabase_def)
next
  case True
  with assms have "load_rows w (select_eligible db_now (wdb w)) 0 = Some (n, w')"
    by (simp add: loadJobsFromDatabase_def)
  from load_rows_chan[OF this] obtain loaded where
    l: "chan w' = chan w @ loaded"
       "list_all (\<lambda>job. \<exists>r \<in> set (select_eligible db_now (wdb w)). job_of_row r = Some job)
          loaded"
    by blast
  have "list_all (\<lambda>job. \<exists>r \<in> set (jobs (wdb w)).
                        eligible db_now r \<and> jID job = r_id r \<and>
                        jPayload job ''backup_type'' = Some (PStr ''manual'') \<and>
                        r_backup_id r \<noteq> None \<and>
                        jPayload job ''backup_id'' = map_option PStr (r_backup_id r)) loaded"
    unfolding list_all_iff
  proof
    fix job assume "job \<in> set loaded"
    with l(2) obtain r where
      r: "r \<in> set (select_eligible db_now (wdb w))" "job_of_row r = Some job"
      by (auto simp: list_all_iff)
    from select_eligible_subset[OF r(1)] job_of_row_payload[OF r(2)]
    show "\<exists>r \<in> set (jobs (wdb w)).
                        eligible db_now r \<and> jID job = r_id r \<and>
                        jPayload job ''backup_type'' = Some (PStr ''manual'') \<and>
                        r_backup_id r \<noteq> None \<and>
                        jPayload job ''backup_id'' = map_option PStr (r_backup_id r)"
      by blast
  qed
  with l(1) show ?thesis by blast
qed

text \<open>
  The hourly job for backup \<open>b1\<close>, persisted and then reloaded after a restart, comes
  back with \<open>backup_type = "manual"\<close> and \<open>backup_id = "b1"\<close>.
\<close>

theorem loader_rebuilds_payload_witness:
  "jPayload hourly_job ''backup_type'' = Some (PStr ''hourly'') \<and>
   map (\<lambda>job. (jID job, jPayload job ''backup_type'', jPayload job ''backup_id''))
       (chan (snd (the (loadJobsFromDatabase 1700000000000000000 after_restart))))
     = [(''j1'', Some (PStr ''manual''), Some (PStr ''b1''))]"
  using loader_rebuilds_payload
          [of 1700000000000000000 after_restart
              "fst (the (loadJobsFromDatabase 1700000000000000000 after_restart))"
              "snd (the (loadJobsFromDatabase 1700000000000000000 after_restart))"]
  by (simp add: queue_defs db_defs worker_defs fixture_defs after_restart_def hourly_job_def
      migrate_add_jobs_table_status_def)

subsection \<open>AddJob persists before it enqueues\<close>

lemma prepare_job_world:
  "prepare_job w job = (job', w1) \<Longrightarrow>
     jStatus job' = JobStatusPending \<and> chan w1 = chan w \<and> wdb w1 = wdb w \<and>
     chan_closed w1 = chan_closed w \<and> ctx_done w1 = ctx_done w"
  by (auto simp: prepare_job_def time_Now_def split: if_splits prod.splits)

lemma persistJob_row:
  "persistJob d job = Inr d' \<Longrightarrow>
     \<exists>row. jobs d' = jobs d @ [row] \<and> r_id row = jID job \<and> r_status row = jStatus job"
  by (auto simp: persistJob_def job_row_of_def insert_job_def split: if_splits)

text \<open>
  C7. \<open>AddJob\<close> inserts the row with status pending before it touches the channel: when
  the insert fails neither the table nor the channel changes; in every other outcome
  (enqueued, queue full, shutting down, panic) the table has gained exactly the job's row,
  pending and therefore matched by the loader's query at any time. \<open>QueueFull\<close> is
  returned only with a saturated buffer and leaves the channel as it was, and a saturated
  buffer of a running queue yields \<open>QueueFull\<close> once the insert has succeeded.
\<close>

theorem AddJob_persists_before_enqueue:
  assumes "AddJob pick w job = (r, job', w')"
  shows "((\<exists>e. r = Some (PersistFailed e)) \<longrightarrow> chan w' = chan w \<and> wdb w' = wdb w) \<and>
         ((\<nexists>e. r = Some (PersistFailed e)) \<longrightarrow>
            jStatus job' = JobStatusPending \<and>
            (\<exists>row. jobs (wdb w') = jobs (wdb w) @ [row] \<and> r_id row = jID job' \<and>
                   r_status row = JobStatusPending \<and> (\<forall>now. eligible now row))) \<and>
         (r = Some QueueFull \<longrightarrow> chan w' = chan w \<and> chan_cap \<le> length (chan w)) \<and>
         (r = None \<longrightarrow> chan w' = chan w @ [job']) \<and>
         (chan_cap \<le> length (chan w) \<and> \<not> chan_closed w \<and> \<not> ctx_done w \<longrightarrow>
            r = Some QueueFull \<or> (\<exists>e. r = Some (PersistFailed e)))"
proof -
  obtain job1 w1 where p: "prepare_job w job = (job1, w1)"
    by (cases "prepare_job w job")
  note pw = prepare_job_world[OF p]
  show ?thesis
  proof (cases "persistJob (wdb w1) job1")
    case (Inl e)
    with assms p pw show ?thesis
      by (auto simp: AddJob_def)
  next
    case (Inr d)
    from persistJob_row[OF Inr] pw obtain row where
      row: "jobs d = jobs (wdb w) @ [row]" "r_id row = jID job1" "r_status row = JobStatusPending"
      by auto
    have el: "\<forall>now. eligible now row"
      using row(3) by (simp add: eligible_def)
    from assms p Inr have j: "job' = job1" and d: "wdb w' = d"
      by (auto simp: AddJob_def Let_def split: if_splits)
    from assms p Inr pw have rest:
      "(r = Some QueueFull \<longrightarrow> chan w' = chan w \<and> chan_cap \<le> length (chan w))"
      "(r = None \<longrightarrow> chan w' = chan w @ [job'])"
      "(chan_cap \<le> length (chan w) \<and> \<not> chan_closed w \<and> \<not> ctx_done w \<longrightarrow> r = Some QueueFull)"
      "\<nexists>e. r = Some (PersistFailed e)"
      by (auto simp: AddJob_def Let_def split: if_splits)
    show ?thesis
      using rest row el pw j d by auto
  qed
qed

text \<open>
  With a full channel \<open>AddJob\<close> returns \<open>QueueFull\<close>, the channel still holds its 1000
  jobs, and the row of the job is in the table, pending and returned by the loader's
  query.
\<close>

theorem AddJob_persists_before_enqueue_witness:
  "fst (AddJob False full_world hourly_job) = Some QueueFull \<and>
   length (chan (snd (snd (AddJob False full_world hourly_job)))) = 1000 \<and>
   map (\<lambda>row. (r_id row, r_status row))
       (jobs (wdb (snd (snd (AddJob False full_world hourly_job))))) = [(''j1'', ''pending'')] \<and>
   map r_id (select_eligible 1700000000000000000
               (wdb (snd (snd (AddJob False full_world hourly_job))))) = [''j1'']"
  using AddJob_persists_before_enqueue
          [of False full_world hourly_job "fst (AddJob False full_world hourly_job)"
              "fst (snd (AddJob False full_world hourly_job))"
              "snd (snd (AddJob False full_world hourly_job))"]
  by (simp add: queue_defs db_defs worker_defs fixture_defs full_world_def hourly_job_def
      migrate_add_jobs_table_status_def)

subsection \<open>At most one worker per job\<close>

text \<open>
  C2. A job delivered once is not delivered again while its first execution is in
  progress. This fails for a job that entered through \<open>AddJob\<close>: its row is inserted as
  pending and the job is handed to the channel directly, and \<open>processJob\<close> writes nothing
  to the row before the handler has returned. While worker-1 executes the job its row is
  still pending, so the loader's next tick claims it and delivers a second copy, which
  worker-2 takes: both workers are active with job \<open>j1\<close> in their current-job slot.
\<close>

theorem AddJob_then_loader_delivers_twice:
  "(case double_delivery of
      None \<Rightarrow> (False, False, None, None, [], [], [])
    | Some (wk1, wk2, w) \<Rightarrow>
        (IsActive wk1, IsActive wk2, map_option jID (currentJob wk1),
         map_option jID (currentJob wk2), wkID wk1, wkID wk2, map r_status (jobs (wdb w))))
   = (True, True, Some ''j1'', Some ''j1'', ''worker-1'', ''worker-2'', [JobStatusRunning])"
  by (simp add: double_delivery_def queue_defs worker_defs db_defs fixture_defs hourly_job_def
      migrate_add_jobs_table_status_def)

subsection \<open>The backup handler\<close>

lemmas backup_defs =
  processBackupJob_def resolve_backup_def dump_backup_def run_pg_dump_def spawn_pg_dump_def
  pg_dump_argv_def
  generateBackupID_def

text \<open>
  C3. After a successful dump and stat the backup handler uploads the dump, deletes the
  local file and only then marks the backup completed with its object-store key. This
  fails on \<open>processBackupJob\<close>: for the hourly job of backup \<open>b1\<close>, with \<open>pg_dump\<close>
  succeeding and leaving 4096 bytes, the job and the backup end \<open>completed\<close>, the
  backup's \<open>s3_key\<close> is the empty string, the object store is still empty and the dump
  file is still on the local disk.
\<close>

theorem processBackupJob_completes_without_upload:
  "(case processJob (NewWorker ''worker-1'') hourly_job
           (world0 (db_b1 BackupStatusPending JobTypeBackup JobStatusRunning)) of
      (wk, job, w) \<Rightarrow>
        (jStatus job, jError job,
         map (\<lambda>b. (bID b, bStatus b, bS3Key b, bEndTime b, bFileSize b, bFilePath b))
             (backups (wdb w)),
         objects (ws3 w), local_files (whost w), map (\<lambda>e. take 1 (fst e)) (execs (whost w))))
   = (JobStatusCompleted, [],
      [(''b1'', BackupStatusCompleted, [], Some 1700000000000000002, 4096,
        ''/tmp/postgres-backups/main_Postgres_1_app_hourly_2023-11-14-22-13-20.sql'')],
      [],
      [(''/tmp/postgres-backups/main_Postgres_1_app_hourly_2023-11-14-22-13-20.sql'', 4096)],
      [[''pg_dump''], [''pg_dump'']])"
  by (simp add: worker_defs backup_defs db_defs fixture_defs db_b1_def backup_b1_def
      hourly_job_def migrate_add_jobs_table_status_def)

text \<open>
  The sibling \<open>performBackup\<close> of the backup service does what the handler misses: a
  backup it leaves \<open>completed\<close> carries the key \<open>GenerateS3Key\<close> computed, the object
  store holds that key, and the local dump file is gone.
\<close>

lemma map_of_filter_other: "map_of (filter (\<lambda>f. fst f \<noteq> p) fs) p = None"
  by (induction fs) auto

lemma GenerateS3Key_nonempty: "GenerateS3Key p t ts f = Some k \<Longrightarrow> k \<noteq> []"
  by (auto simp: GenerateS3Key_def split: list.splits)

lemma performBackup_completed:
  assumes "performBackup tempDir w b pgConfig filename timestamp = Some (b', w')"
    and "bStatus b' = BackupStatusCompleted"
  shows "GenerateS3Key (bPostgreSQLID b) (bBackupType b) timestamp filename = Some (bS3Key b') \<and>
         bS3Key b' \<noteq> [] \<and> List.member (objects (ws3 w')) (bS3Key b') \<and>
         map_of (local_files (whost w')) (filepath_Join (whost w) tempDir filename) = None \<and>
         bEndTime b' \<noteq> None"
  using assms
  by (auto simp: performBackup_def Let_def time_Now_def UploadFile_def map_of_filter_other
           dest: GenerateS3Key_nonempty
           split: option.splits prod.splits bool.splits if_splits)

text \<open>\<open>performBackup\<close> panics on a backup id of fewer than eight bytes.\<close>

lemma performBackup_short_id:
  "length (bID b) < 8 \<Longrightarrow> performBackup tempDir w b pgConfig filename timestamp = None"
  by (simp add: performBackup_def)

subsection \<open>The restore handler\<close>

text \<open>Whatever its payload, \<open>processRestoreJob\<close> changes neither the job nor the world.\<close>

lemma processRestoreJob_inert:
  "processRestoreJob w job = (r, job', w') \<Longrightarrow> w' = w \<and> job' = job"
  by (auto simp: processRestoreJob_def split: if_splits)

text \<open>
  C4. The restore handler fails unless the referenced backup is completed, downloads the
  artifact, runs \<open>psql\<close> and removes the temporary file. This fails on
  \<open>processRestoreJob\<close>: a restore job for backup \<open>b1\<close>, whose status is \<open>failed\<close>,
  ends \<open>completed\<close> without an error; no process was spawned and no file was written.
\<close>

theorem processRestoreJob_succeeds_without_restoring:
  "(case processJob (NewWorker ''worker-1'') restore_job
           (world0 (db_b1 BackupStatusFailed JobTypeRestore JobStatusRunning)) of
      (wk, job, w) \<Rightarrow>
        (jStatus job, jError job, map r_status (jobs (wdb w)), map bStatus (backups (wdb w)),
         execs (whost w), local_files (whost w)))
   = (JobStatusCompleted, [], [JobStatusCompleted], [BackupStatusFailed], [], [])"
  by (simp add: worker_defs db_defs fixture_defs db_b1_def backup_b1_def restore_job_def
      migrate_add_jobs_table_status_def)

text \<open>
  The sibling \<open>RestoreBackup\<close> of the backup service refuses a backup that is not
  completed, and when it succeeds it has downloaded the object, run \<open>psql\<close> on the
  downloaded file and removed that file. When the download itself fails the file
  \<open>DownloadFile\<close> created stays behind: the removal is deferred only after the download.
\<close>

lemma RestoreBackup_not_completed:
  "known backupID = Some b \<Longrightarrow> bStatus b \<noteq> BackupStatusCompleted \<Longrightarrow>
     RestoreBackup known insts tempDir w backupID postgresID databaseName
       = (Some (''backup '' @ backupID @ '' is not completed''), w)"
  by (simp add: RestoreBackup_def)

lemma RestoreBackup_success:
  assumes "RestoreBackup known insts tempDir w backupID postgresID databaseName = (None, w')"
  shows "\<exists>b pgConfig.
           known backupID = Some b \<and> bStatus b = BackupStatusCompleted \<and>
           find (\<lambda>pg. pID pg = postgresID) insts = Some pgConfig \<and>
           List.member (objects (ws3 w)) (bS3Key b) \<and>
           execs (whost w')
             = execs (whost w)
               @ [(psql_argv pgConfig databaseName
                     (restore_path (whost w) tempDir backupID (clk w (reads w))),
                   pPassword pgConfig)] \<and>
           map_of (local_files (whost w'))
             (restore_path (whost w) tempDir backupID (clk w (reads w))) = None"
  using assms
  by (auto simp: RestoreBackup_def Let_def time_Now_def DownloadFile_def restore_path_def
           map_of_filter_other
           split: option.splits prod.splits bool.splits if_splits)

lemma RestoreBackup_failed_download_keeps_file:
  assumes "known backupID = Some b" and "bStatus b = BackupStatusCompleted"
    and "find (\<lambda>pg. pID pg = postgresID) insts = Some pgConfig"
    and "\<not> create_fails (whost w)" and "download_fails (ws3 w)"
  shows "RestoreBackup known insts tempDir w backupID postgresID databaseName
           = (Some ''failed to download backup: download'',
              w\<lparr>reads := Suc (reads w),
                 whost := (whost w)\<lparr>local_files :=
                   (restore_path (whost w) tempDir backupID (clk w (reads w)), 0)
                   # filter (\<lambda>f. fst f \<noteq> restore_path (whost w) tempDir backupID (clk w (reads w)))
                       (local_files (whost w))\<rparr>\<rparr>)"
  using assms
  by (simp add: RestoreBackup_def Let_def time_Now_def DownloadFile_def restore_path_def)

subsection \<open>The cleanup handler and retention\<close>

text \<open>Whatever its payload, \<open>processCleanupJob\<close> changes neither the job nor the world.\<close>

lemma processCleanupJob_inert:
  "processCleanupJob w job = (r, job', w') \<Longrightarrow> w' = w \<and> job' = job"
  by (auto simp: processCleanupJob_def split: if_splits)

text \<open>
  C9. A cleanup run over the prefix of an (instance, cadence) pair changes nothing when
  at most the retention count of objects is listed, and otherwise deletes the oldest
  objects beyond that count, logging a failed deletion without failing the job. This
  fails on \<open>processCleanupJob\<close>: the cleanup job for the hourly dumps of \<open>pg1\<close>, run
  on a store that lists six of them, ends \<open>completed\<close> without an error, and the store
  still holds all six and has logged neither a deletion nor a failure; so for every
  retention count below six the excess is still there.
\<close>

theorem processCleanupJob_completes_without_cleanup:
  "(case processJob (NewWorker ''worker-1'') cleanup_job
           ((world0 (db_b1 BackupStatusCompleted JobTypeCleanup JobStatusRunning))
              \<lparr>ws3 := six_hourly\<rparr>) of
      (wk, job, w) \<Rightarrow>
        (jStatus job, jError job, map r_status (jobs (wdb w)),
         ListFiles (ws3 w) ''backups/pg1/hourly/'', objects (ws3 w) = objects six_hourly,
         s3_logged (ws3 w)))
   = (JobStatusCompleted, [], [JobStatusCompleted],
      Some [''backups/pg1/hourly/2023/11/h01.sql'', ''backups/pg1/hourly/2023/11/h02.sql'',
            ''backups/pg1/hourly/2023/11/h03.sql'', ''backups/pg1/hourly/2023/11/h04.sql'',
            ''backups/pg1/hourly/2023/11/h05.sql'', ''backups/pg1/hourly/2023/11/h06.sql''],
      True, [])"
  by (simp add: worker_defs db_defs fixture_defs db_b1_def backup_b1_def cleanup_job_def
      migrate_add_jobs_table_status_def six_hourly_def ListFiles_def has_prefix_def)

text \<open>
  The sibling \<open>CleanupOldBackups\<close> of the S3 client, which no job handler calls, has the
  logic the handler misses.
\<close>

lemma delete_each_fields:
  "delete_fails (delete_each s ks) = delete_fails s \<and> list_fails (delete_each s ks) = list_fails s"
  by (induction ks arbitrary: s) (auto simp: DeleteFile_def)

lemma delete_each_objects:
  "objects (delete_each s ks) = filter (\<lambda>k. k \<notin> set ks \<or> delete_fails s k) (objects s)"
proof (induction ks arbitrary: s)
  case Nil
  then show ?case by simp
next
  case (Cons k ks)
  show ?case
  proof (cases "delete_fails s k")
    case True
    then show ?thesis
      by (auto simp: Cons.IH DeleteFile_def intro!: filter_cong)
  next
    case False
    then show ?thesis
      by (auto simp: Cons.IH DeleteFile_def removeAll_filter_not_eq intro!: filter_cong)
  qed
qed

lemma delete_each_logged:
  "s3_logged (delete_each s ks)
     = s3_logged s @ map (\<lambda>k. if delete_fails s k then DeleteFailed k else Deleted k) ks"
  by (induction ks arbitrary: s) (auto simp: DeleteFile_def)

lemma ListFiles_sorted: "ListFiles s p = Some listed \<Longrightarrow> sorted listed"
  by (auto simp: ListFiles_def sorted_wrt_filter split: if_splits)

text \<open>
  A run of \<open>CleanupOldBackups\<close> over a prefix with retention count \<open>keep\<close>: when at most
  \<open>keep\<close> objects are listed, nothing changes; otherwise, for a \<open>keep\<close> that is not
  negative, deletion is attempted on exactly the first \<open>listed - keep\<close> keys of the
  listing, which is in ascending key order. The keys whose deletion succeeds leave the
  store, a failed deletion is logged and the run goes on, and the run returns without an
  error either way.
\<close>

lemma CleanupOldBackups_retention:
  assumes "ListFiles s pfx = Some listed"
  shows "(int (length listed) \<le> keep \<longrightarrow> CleanupOldBackups s pfx keep = (Ok, s)) \<and>
         (0 \<le> keep \<and> keep < int (length listed) \<longrightarrow>
            sorted listed \<and>
            fst (CleanupOldBackups s pfx keep) = Ok \<and>
            objects (snd (CleanupOldBackups s pfx keep))
              = filter (\<lambda>k. k \<notin> set (take (length listed - nat keep) listed) \<or> delete_fails s k)
                  (objects s) \<and>
            s3_logged (snd (CleanupOldBackups s pfx keep))
              = s3_logged s
                @ map (\<lambda>k. if delete_fails s k then DeleteFailed k else Deleted k)
                    (take (length listed - nat keep) listed)
                @ [CleanedUp (length listed - nat keep) pfx])"
  using assms ListFiles_sorted[OF assms]
  by (auto simp: CleanupOldBackups_def Let_def delete_each_objects delete_each_logged)

text \<open>
  With a negative retention count the run panics. When the slice expression stays within
  the capacity of the listing the panic comes after the loop has tried to delete every
  listed object, and the closing line is not logged; past the capacity the store is left
  as it was.
\<close>

lemma CleanupOldBackups_negative:
  assumes "ListFiles s pfx = Some listed" and "keep < 0"
  shows "fst (CleanupOldBackups s pfx keep) = Panicked \<and>
         (nat (- keep) \<le> list_spare s \<longrightarrow>
            objects (snd (CleanupOldBackups s pfx keep))
              = filter (\<lambda>k. k \<notin> set listed \<or> delete_fails s k) (objects s) \<and>
            s3_logged (snd (CleanupOldBackups s pfx keep))
              = s3_logged s
                @ map (\<lambda>k. if delete_fails s k then DeleteFailed k else Deleted k) listed) \<and>
         (list_spare s < nat (- keep) \<longrightarrow> snd (CleanupOldBackups s pfx keep) = s)"
  using assms
  by (auto simp: CleanupOldBackups_def delete_each_objects delete_each_logged)

text \<open>
  The service calls it with the prefix of the (instance, cadence) pair and the retention
  count configured for the cadence, and leaves manual backups alone.
\<close>

lemma cleanupOldBackups_manual: "cleanupOldBackups policy s postgresID ''manual'' = (Ok, s)"
  by (simp add: cleanupOldBackups_def)

lemma cleanupOldBackups_hourly:
  "snd (cleanupOldBackups policy s postgresID ''hourly'')
     = snd (CleanupOldBackups s (''backups/'' @ postgresID @ ''/hourly/'') (Hourly policy))"
  by (simp add: cleanupOldBackups_def split: prod.splits go_result.splits)

text \<open>
  Six hourly dumps: with \<open>keep = 6\<close> nothing changes; with \<open>keep = 4\<close> the two oldest
  are tried, the oldest leaves the store, the failure on the second is logged, and the run
  returns without an error; with \<open>keep = -1\<close> all six are tried before the panic.
\<close>

lemma CleanupOldBackups_six_hourly:
  "ListFiles six_hourly ''backups/pg1/hourly/''
     = Some [''backups/pg1/hourly/2023/11/h01.sql'', ''backups/pg1/hourly/2023/11/h02.sql'',
             ''backups/pg1/hourly/2023/11/h03.sql'', ''backups/pg1/hourly/2023/11/h04.sql'',
             ''backups/pg1/hourly/2023/11/h05.sql'', ''backups/pg1/hourly/2023/11/h06.sql''] \<and>
   CleanupOldBackups six_hourly ''backups/pg1/hourly/'' 6 = (Ok, six_hourly) \<and>
   fst (CleanupOldBackups six_hourly ''backups/pg1/hourly/'' 4) = Ok \<and>
   objects (snd (CleanupOldBackups six_hourly ''backups/pg1/hourly/'' 4))
     = [''backups/pg1/hourly/2023/11/h03.sql'', ''backups/pg1/daily/2023/11/d01.sql'',
        ''backups/pg1/hourly/2023/11/h02.sql'', ''backups/pg1/hourly/2023/11/h06.sql'',
        ''backups/pg1/hourly/2023/11/h04.sql'', ''backups/pg1/hourly/2023/11/h05.sql''] \<and>
   s3_logged (snd (CleanupOldBackups six_hourly ''backups/pg1/hourly/'' 4))
     = [Deleted ''backups/pg1/hourly/2023/11/h01.sql'',
        DeleteFailed ''backups/pg1/hourly/2023/11/h02.sql'',
        CleanedUp 2 ''backups/pg1/hourly/''] \<and>
   fst (CleanupOldBackups six_hourly ''backups/pg1/hourly/'' (- 1)) = Panicked \<and>
   objects (snd (CleanupOldBackups six_hourly ''backups/pg1/hourly/'' (- 1)))
     = [''backups/pg1/daily/2023/11/d01.sql'', ''backups/pg1/hourly/2023/11/h02.sql'']"
proof -
  have l: "ListFiles six_hourly ''backups/pg1/hourly/''
     = Some [''backups/pg1/hourly/2023/11/h01.sql'', ''backups/pg1/hourly/2023/11/h02.sql'',
             ''backups/pg1/hourly/2023/11/h03.sql'', ''backups/pg1/hourly/2023/11/h04.sql'',
             ''backups/pg1/hourly/2023/11/h05.sql'', ''backups/pg1/hourly/2023/11/h06.sql'']"
    by (simp add: ListFiles_def six_hourly_def has_prefix_def)
  show ?thesis
    using CleanupOldBackups_retention[OF l, of 6] CleanupOldBackups_retention[OF l, of 4]
      CleanupOldBackups_negative[OF l, of "- 1"] l
    by (simp add: six_hourly_def)
qed

subsection \<open>The scheduler's fan-out\<close>





lemma length_planned [simp]: "length (planned c r backupType ps) = length ps"
  by (induction ps arbitrary: r) auto




lemma r_id_job_row_of [simp]: "r_id (job_row_of job) = jID job"
  by (simp add: job_row_of_def)








text \<open>
  A row that does not scan fails the whole query, and a tick whose query failed creates
  nothing: one enabled row with NULL in \<open>databases\<close> (or in one of its timestamps) keeps
  every instance from being scheduled.
\<close>

lemma scan_rows_error:
  "row \<in> set rows \<Longrightarrow> isl (scanPostgreSQL row) \<Longrightarrow> isl (scan_rows rows)"
  by (induction rows) (auto split: sum.splits)

lemma GetEnabled_null_row:
  assumes "available d" and "row \<in> set (instances d)" and "i_enabled row"
    and "i_databases row = DbNull \<or> i_created_at row = None \<or> i_updated_at row = None"
  shows "isl (GetEnabled d)"
proof -
  have "row \<in> set (select_enabled d)"
    using assms(2,3) by (simp add: select_enabled_def)
  moreover have "isl (scanPostgreSQL row)"
    using assms(4) by (auto simp: scanPostgreSQL_def)
  ultimately show ?thesis
    using assms(1) by (simp add: GetEnabled_def scan_rows_error)
qed

lemma tick_after_failed_query:
  "isl (GetEnabled (wdb w)) \<Longrightarrow>
     createBackupJobsForAllEnabledInstances pick w backupType = Some (0, w)"
  by (auto simp: createBackupJobsForAllEnabledInstances_def isl_def)






text \<open>
  The decimal rendering of the clock readings used below.
\<close>

lemmas digits10_numeral = digits10.simps[of "numeral k"] for k

lemma fmt_d_at:
  "fmt_d 1700000000000000000 = ''1700000000000000000''"
  "fmt_d 1700000000000000003 = ''1700000000000000003''"
  "fmt_d 1700000000000000005 = ''1700000000000000005''"
  "fmt_d 1700000000000000008 = ''1700000000000000008''"
  "fmt_d 1700000000000000010 = ''1700000000000000010''"
  "fmt_d 1700000000000000013 = ''1700000000000000013''"
  by (simp_all add: fmt_d_def digits10_numeral digits10.simps[of "Suc 0"])






text \<open>
  With an enabled instance \<open>D\<close> whose \<open>databases\<close> is NULL in the table, the tick
  creates nothing for any instance; and a tick after the queue was stopped panics in the
  first \<open>AddJob\<close> whose \<open>select\<close> picks the send.
\<close>

lemma tick_with_null_databases:
  "createBackupJobsForAllEnabledInstances pick
     (fan_out_world\<lparr>wdb := (wdb fan_out_world)\<lparr>instances := [inst_C, inst_B, inst_A, inst_D]\<rparr>\<rparr>)
     ''hourly''
   = Some (0, fan_out_world\<lparr>wdb := (wdb fan_out_world)\<lparr>instances := [inst_C, inst_B, inst_A, inst_D]\<rparr>\<rparr>)"
proof (rule tick_after_failed_query)
  show "isl (GetEnabled (wdb (fan_out_world\<lparr>wdb := (wdb fan_out_world)\<lparr>instances :=
                                 [inst_C, inst_B, inst_A, inst_D]\<rparr>\<rparr>)))"
    by (rule GetEnabled_null_row[where row = inst_D])
       (simp_all add: fan_out_world_def world0_def db_init_def inst_D_def pg1_def)
qed

lemma tick_on_closed_channel:
  "createBackupJobsForAllEnabledInstances (\<lambda>n. True)
     (fan_out_world\<lparr>ctx_done := True, chan_closed := True\<rparr>) ''hourly'' = None"
  by (simp add: createBackupJobsForAllEnabledInstances_def schedule_one_def databases_of_def
      db_defs queue_defs scheduled_backup_def scheduled_job_def generateJobID_def fmt_d_at
      as_string_def fixture_defs fan_out_world_def inst_A_def inst_B_def
      inst_C_def time_Now_def Let_def migrate_add_jobs_table_status_def)

end
